theory Spec2Isabelle
  imports Complex_Main "HOL-Library.Multiset" "HOL-Library.Sublist"
begin

section \<open>Numbers and strings of the host language\<close>

text \<open>
  The program is TypeScript. A value of type \<open>number\<close> is modelled as a \<open>real\<close>, and the
  arithmetic of the model is exact: the rounding of IEEE doubles is not modelled. Their
  overflow is, where the code tests for it: a literal or a product whose magnitude
  reaches \<open>overflowBound\<close> (the least magnitude that rounds beyond the largest double)
  evaluates to \<open>Infinity\<close> or \<open>-Infinity\<close>, so a real of at least that magnitude stands for
  the infinity of its sign, and \<open>Number.isFinite\<close> is the test against the bound. \<open>NaN\<close>
  arises in the modelled code only as the result of \<open>parseFloat\<close>, which returns \<open>None\<close>
  for it. An optional field (\<open>rating?: number\<close>) is an \<open>option\<close>; a string field that
  the code only ever tests for truthiness is a \<open>string\<close>, the empty string standing for a
  missing one as well (both are falsy, and \<open>x || ""\<close> maps both to the empty string).
  Characters are bytes and \<open>toLowerCase\<close> is the ASCII one.
\<close>

definition overflowBound :: real where
  "overflowBound = 2 ^ 1024 - 2 ^ 970"

definition isFinite :: "real \<Rightarrow> bool" where
  "isFinite x = (\<bar>x\<bar> < overflowBound)"

definition truthy :: "string \<Rightarrow> bool" where
  "truthy s = (s \<noteq> [])"

definition lowerChar :: "char \<Rightarrow> char" where
  "lowerChar c =
     (if (65::nat) \<le> of_char c \<and> of_char c \<le> (90::nat)
      then char_of (of_char c + (32::nat)) else c)"

definition toLowerCase :: "string \<Rightarrow> string" where
  "toLowerCase s = map lowerChar s"

fun startsWith :: "string \<Rightarrow> string \<Rightarrow> bool" where
  "startsWith s [] = True"
| "startsWith [] (p # ps) = False"
| "startsWith (c # cs) (p # ps) = (c = p \<and> startsWith cs ps)"

text \<open>\<open>s.includes(sub)\<close>: \<open>sub\<close> occurs in \<open>s\<close> as a contiguous substring.\<close>

fun strIncludes :: "string \<Rightarrow> string \<Rightarrow> bool" where
  "strIncludes [] sub = (sub = [])"
| "strIncludes (c # cs) sub = (startsWith (c # cs) sub \<or> strIncludes cs sub)"

subsection \<open>parseFloat\<close>

text \<open>
  \<open>parseFloat\<close> skips leading white space and reads the longest prefix that is a decimal
  literal: an optional sign, digits with an optional fraction (or a fraction alone), and an
  exponent when the \<open>e\<close> is followed by at least one digit. Without such a prefix the result
  is \<open>NaN\<close>, here \<open>None\<close>. The result is the value of the literal; when that reaches
  \<open>overflowBound\<close> it stands for an infinity, as said above. The literal \<open>Infinity\<close> is
  left out: the distance parsers pass a lower-cased string, in which it cannot occur, and
  the route handler rejects a coordinate that is not finite just as it rejects \<open>NaN\<close>.
\<close>

definition isWhite :: "char \<Rightarrow> bool" where
  "isWhite c = ((of_char c :: nat) \<in> {9, 10, 11, 12, 13, 32})"

definition isDigit :: "char \<Rightarrow> bool" where
  "isDigit c = ((48::nat) \<le> of_char c \<and> of_char c \<le> (57::nat))"

definition digitVal :: "char \<Rightarrow> nat" where
  "digitVal c = of_char c - 48"

definition digitsVal :: "string \<Rightarrow> nat" where
  "digitsVal ds = foldl (\<lambda>n c. 10 * n + digitVal c) 0 ds"

text \<open>The sign of a literal or of an exponent: the factor and the rest of the text.\<close>

fun readSign :: "string \<Rightarrow> bool \<times> string" where
  "readSign [] = (False, [])"
| "readSign (c # cs) =
     (if c = CHR ''-'' then (True, cs)
      else if c = CHR ''+'' then (False, cs)
      else (False, c # cs))"

text \<open>The exponent part after the mantissa: \<open>(negative, magnitude)\<close>, or none.\<close>

fun readExponent :: "string \<Rightarrow> (bool \<times> nat) option" where
  "readExponent [] = None"
| "readExponent (c # cs) =
     (if c = CHR ''e'' \<or> c = CHR ''E''
      then (let (neg, rest) = readSign cs;
                ds = takeWhile isDigit rest
            in if ds = [] then None else Some (neg, digitsVal ds))
      else None)"

definition scale10 :: "real \<Rightarrow> (bool \<times> nat) option \<Rightarrow> real" where
  "scale10 m e =
     (case e of
        None \<Rightarrow> m
      | Some (neg, k) \<Rightarrow> if neg then m / 10 ^ k else m * 10 ^ k)"

definition parseFloat :: "string \<Rightarrow> real option" where
  "parseFloat s =
     (let (neg, body) = readSign (dropWhile isWhite s);
          ip = takeWhile isDigit body;
          r1 = dropWhile isDigit body;
          fp = (case r1 of [] \<Rightarrow> [] | c # cs \<Rightarrow>
                  if c = CHR ''.'' then takeWhile isDigit cs else []);
          r2 = (case r1 of [] \<Rightarrow> [] | c # cs \<Rightarrow>
                  if c = CHR ''.'' then dropWhile isDigit cs else r1)
      in if ip = [] \<and> fp = [] then None
         else
           (let m = real (digitsVal ip) + real (digitsVal fp) / 10 ^ length fp;
                v = scale10 m (readExponent r2)
            in Some (if neg then - v else v)))"

section \<open>The distance parser\<close>

text \<open>
  The home page's parser (the file that holds the swipe deck). Miles are resolved first,
  then kilometres, then bare metres.
\<close>

definition parseDistanceToMeters :: "string \<Rightarrow> real option" where
  "parseDistanceToMeters distance =
     (if \<not> truthy distance then None
      else
        (let lower = toLowerCase distance in
         case parseFloat lower of
           None \<Rightarrow> None
         | Some num \<Rightarrow>
             if strIncludes lower ''mi'' \<or> strIncludes lower ''mile'' then Some (num * 1609.34)
             else if strIncludes lower ''km'' then Some (num * 1000)
             else if strIncludes lower ''m'' \<and> \<not> strIncludes lower ''mile'' then Some num
             else None))"

text \<open>
  The recommendations page has its own parser, with a module-level memo table
  \<open>distanceCache\<close>. It has no branch for miles. \<open>parseDistance_page\<close> is the computation
  behind the table; \<open>parseDistanceToMeters_page\<close> threads the table: a hit returns the
  stored value, a miss stores what was computed.
\<close>

definition parseDistance_page :: "string \<Rightarrow> real option" where
  "parseDistance_page distance =
     (let lower = toLowerCase distance in
      case parseFloat lower of
        None \<Rightarrow> None
      | Some num \<Rightarrow>
          if strIncludes lower ''km'' then Some (num * 1000)
          else if strIncludes lower ''m'' then Some num
          else None)"

type_synonym distanceCache = "string \<rightharpoonup> real option"

definition parseDistanceToMeters_page ::
    "distanceCache \<Rightarrow> string \<Rightarrow> real option \<times> distanceCache" where
  "parseDistanceToMeters_page cache distance =
     (if \<not> truthy distance then (None, cache)
      else
        (case cache distance of
           Some hit \<Rightarrow> (hit, cache)
         | None \<Rightarrow>
             (let result = parseDistance_page distance
              in (result, cache(distance \<mapsto> result)))))"

text \<open>
  The table is consistent when every entry is what the computation gives for its key. The
  table starts empty and only the parser writes to it.
\<close>

definition cacheConsistent :: "distanceCache \<Rightarrow> bool" where
  "cacheConsistent cache =
     (\<forall>k. case cache k of None \<Rightarrow> True | Some v \<Rightarrow> truthy k \<and> v = parseDistance_page k)"

definition metersOf_page :: "string \<Rightarrow> real option" where
  "metersOf_page distance = (if \<not> truthy distance then None else parseDistance_page distance)"

section \<open>Saved places and the preference profile\<close>

text \<open>
  \<open>FoodStore\<close> with the fields that the profile, the scorer and the ranking read. The
  identifier is kept as the string that \<open>String(id)\<close> gives.
\<close>

record OpeningHours =
  weekdayText :: "string list option"
  openNow :: "bool option"

record FoodStore =
  store_id :: string
  name :: string
  cuisine :: string
  spiceLevel :: string
  distance :: string
  isNew :: "bool option"
  rating :: "real option"
  ratingCount :: "real option"
  priceLevel :: "real option"
  openingHours :: "OpeningHours option"

record UserPreferences =
  favoriteCuisines :: "string \<rightharpoonup> real"
  avgRating :: real
  avgDistance :: real
  preferredPriceLevels :: "real \<rightharpoonup> real"
  preferredSpiceLevels :: "string \<rightharpoonup> real"
  totalSaved :: real

text \<open>\<open>counts[k] || 0\<close>: a missing key, like a stored zero, reads as zero.\<close>

definition countOf :: "('k \<rightharpoonup> real) \<Rightarrow> 'k \<Rightarrow> real" where
  "countOf m k = (case m k of None \<Rightarrow> 0 | Some v \<Rightarrow> v)"

definition bumpCount :: "('k \<rightharpoonup> real) \<Rightarrow> 'k \<Rightarrow> ('k \<rightharpoonup> real)" where
  "bumpCount m k = m(k \<mapsto> countOf m k + 1)"

text \<open>The local variables of the loop of \<open>extractPreferences\<close>.\<close>

record PrefLoop =
  cuisineCounts :: "string \<rightharpoonup> real"
  priceCounts :: "real \<rightharpoonup> real"
  spiceCounts :: "string \<rightharpoonup> real"
  totalRating :: real
  ratingCountL :: nat
  totalDistance :: real
  distanceCountL :: nat

definition prefLoopInit :: PrefLoop where
  "prefLoopInit =
     \<lparr>cuisineCounts = Map.empty, priceCounts = Map.empty, spiceCounts = Map.empty,
      totalRating = 0, ratingCountL = 0, totalDistance = 0, distanceCountL = 0\<rparr>"

text \<open>One iteration of the loop body, for one saved store.\<close>

definition prefLoopBody :: "PrefLoop \<Rightarrow> FoodStore \<Rightarrow> PrefLoop" where
  "prefLoopBody st store =
     (let st = (if truthy (cuisine store)
                then st\<lparr>cuisineCounts := bumpCount (cuisineCounts st) (cuisine store)\<rparr>
                else st);
          st = (case priceLevel store of
                  Some pl \<Rightarrow> st\<lparr>priceCounts := bumpCount (priceCounts st) pl\<rparr>
                | None \<Rightarrow> st);
          st = (if truthy (spiceLevel store)
                then st\<lparr>spiceCounts := bumpCount (spiceCounts st) (spiceLevel store)\<rparr>
                else st);
          st = (case rating store of
                  Some r \<Rightarrow>
                    if r > 0
                    then st\<lparr>totalRating := totalRating st + r,
                            ratingCountL := ratingCountL st + 1\<rparr>
                    else st
                | None \<Rightarrow> st);
          st = (case parseDistanceToMeters (distance store) of
                  Some meters \<Rightarrow>
                    if isFinite meters
                    then st\<lparr>totalDistance := totalDistance st + meters,
                            distanceCountL := distanceCountL st + 1\<rparr>
                    else st
                | None \<Rightarrow> st)
      in st)"

fun prefLoop :: "PrefLoop \<Rightarrow> FoodStore list \<Rightarrow> PrefLoop" where
  "prefLoop st [] = st"
| "prefLoop st (store # rest) = prefLoop (prefLoopBody st store) rest"

definition extractPreferences :: "FoodStore list \<Rightarrow> UserPreferences" where
  "extractPreferences saved =
     (if length saved = 0
      then \<lparr>favoriteCuisines = Map.empty, avgRating = 0, avgDistance = 0,
            preferredPriceLevels = Map.empty, preferredSpiceLevels = Map.empty,
            totalSaved = 0\<rparr>
      else
        (let st = prefLoop prefLoopInit saved in
         \<lparr>favoriteCuisines = cuisineCounts st,
          avgRating = (if ratingCountL st > 0
                       then totalRating st / real (ratingCountL st) else 0),
          avgDistance = (if distanceCountL st > 0
                         then totalDistance st / real (distanceCountL st) else 0),
          preferredPriceLevels = priceCounts st,
          preferredSpiceLevels = spiceCounts st,
          totalSaved = real (length saved)\<rparr>))"

section \<open>The recommendation scorer\<close>

text \<open>
  \<open>scoreRecommendation\<close> starts from zero and adds the contribution of one block of
  the function after the other; no block reads the running total. Each block is a
  definition, named after what it scores, and the score is their sum in the order of the
  source. First the home page's scorer, which takes an optional pre-computed distance.
\<close>

definition cuisineTerm :: "FoodStore \<Rightarrow> UserPreferences \<Rightarrow> real" where
  "cuisineTerm restaurant preferences =
     (let cuisineCount = countOf (favoriteCuisines preferences) (cuisine restaurant) in
      if cuisineCount > 0 then (if cuisineCount \<ge> 3 then 25 else cuisineCount * 8)
      else if totalSaved preferences > 0 then - 2
      else 0)"

text \<open>The part of the rating block that compares with the profile's average.\<close>

definition ratingAlignment :: "real \<Rightarrow> UserPreferences \<Rightarrow> real" where
  "ratingAlignment r preferences =
     (if avgRating preferences > 0
      then (let ratingDiff = \<bar>r - avgRating preferences\<bar> in
            (if ratingDiff < 0.5 then 20 else if ratingDiff < 1.0 then 12 else 5)
            + (if avgRating preferences \<ge> 4.0 \<and> r \<ge> 4.5 then 8 else 0))
      else r * 3)"

text \<open>The social-proof boost, inside the same block.\<close>

definition socialProof :: "FoodStore \<Rightarrow> real" where
  "socialProof restaurant =
     (case ratingCount restaurant of
        Some rc \<Rightarrow> if rc \<noteq> 0 \<and> rc > 100 then min (rc / 300) 3 else 0
      | None \<Rightarrow> 0)"

definition ratingTerm :: "FoodStore \<Rightarrow> UserPreferences \<Rightarrow> real" where
  "ratingTerm restaurant preferences =
     (case rating restaurant of
        Some r \<Rightarrow>
          if r > 0 then ratingAlignment r preferences + socialProof restaurant else 0
      | None \<Rightarrow> 0)"

text \<open>The bonus for absolute proximity: the first band that matches.\<close>

definition proximityBands :: "real \<Rightarrow> real" where
  "proximityBands meters =
     (if meters < 500 then 10
      else if meters < 1000 then 7
      else if meters < 2000 then 4
      else if meters < 5000 then 1
      else 0)"

text \<open>The part of the distance block that compares with the profile's average.\<close>

definition distanceAlignment :: "real \<Rightarrow> UserPreferences \<Rightarrow> real" where
  "distanceAlignment meters preferences =
     (if avgDistance preferences > 0
      then (let distanceDiff = \<bar>meters - avgDistance preferences\<bar> in
            (if distanceDiff < 500 then 15 else if distanceDiff < 1000 then 10 else 0)
            + (if avgDistance preferences < 1000 \<and> meters < 1500 then 12 else 0))
      else 0)"

definition distanceTerm :: "real option \<Rightarrow> UserPreferences \<Rightarrow> real" where
  "distanceTerm meters preferences =
     (case meters of
        Some m \<Rightarrow>
          if isFinite m \<and> m > 0
          then distanceAlignment m preferences + proximityBands m
          else 0
      | None \<Rightarrow> 0)"

definition priceTerm :: "FoodStore \<Rightarrow> UserPreferences \<Rightarrow> real" where
  "priceTerm restaurant preferences =
     (case priceLevel restaurant of
        Some pl \<Rightarrow>
          (let priceCount = countOf (preferredPriceLevels preferences) pl in
           if priceCount > 0 then priceCount * 5 else - 1)
      | None \<Rightarrow> 0)"

definition spiceTerm :: "FoodStore \<Rightarrow> UserPreferences \<Rightarrow> real" where
  "spiceTerm restaurant preferences =
     (let spiceCount = countOf (preferredSpiceLevels preferences) (spiceLevel restaurant) in
      if spiceCount > 0 then spiceCount * 3 else 0)"

definition diversityTerm :: "FoodStore \<Rightarrow> UserPreferences \<Rightarrow> real" where
  "diversityTerm restaurant preferences =
     (let cuisineCount = countOf (favoriteCuisines preferences) (cuisine restaurant) in
      if totalSaved preferences \<ge> 5 \<and> cuisineCount = 0 then 2 else 0)"

definition isOpenNow :: "FoodStore \<Rightarrow> bool" where
  "isOpenNow restaurant =
     (case openingHours restaurant of
        Some h \<Rightarrow> openNow h = Some True
      | None \<Rightarrow> False)"

definition qualityTerm :: "FoodStore \<Rightarrow> real" where
  "qualityTerm restaurant =
     (if isNew restaurant = Some True then 3 else 0)
     + (if isOpenNow restaurant then 5 else 0)"

text \<open>\<open>metersCache ?? parseDistanceToMeters(restaurant.distance)\<close>.\<close>

definition metersFor :: "FoodStore \<Rightarrow> real option \<Rightarrow> real option" where
  "metersFor restaurant metersCache =
     (case metersCache of
        Some m \<Rightarrow> Some m
      | None \<Rightarrow> parseDistanceToMeters (distance restaurant))"

definition scoreRecommendation ::
    "FoodStore \<Rightarrow> UserPreferences \<Rightarrow> real option \<Rightarrow> real" where
  "scoreRecommendation restaurant preferences metersCache =
     (let meters = metersFor restaurant metersCache in
      cuisineTerm restaurant preferences
      + ratingTerm restaurant preferences
      + distanceTerm meters preferences
      + priceTerm restaurant preferences
      + spiceTerm restaurant preferences
      + diversityTerm restaurant preferences
      + qualityTerm restaurant)"

text \<open>
  The recommendations page has its own copy of the scorer, written with statements where
  the home page's has conditional expressions, and reading the distance through the memo
  table. Its blocks are translated on their own.
\<close>

definition cuisineTerm_page :: "FoodStore \<Rightarrow> UserPreferences \<Rightarrow> real" where
  "cuisineTerm_page restaurant preferences =
     (let cuisineCount = countOf (favoriteCuisines preferences) (cuisine restaurant) in
      if cuisineCount > 0
      then (let cuisineWeight = (if cuisineCount \<ge> 3 then 25 else cuisineCount * 8)
            in cuisineWeight)
      else if totalSaved preferences > 0 then - 2
      else 0)"

definition ratingTerm_page :: "FoodStore \<Rightarrow> UserPreferences \<Rightarrow> real" where
  "ratingTerm_page restaurant preferences =
     (case rating restaurant of
        None \<Rightarrow> 0
      | Some r \<Rightarrow>
          if \<not> r > 0 then 0
          else
            (if avgRating preferences > 0
             then (let ratingDiff = \<bar>r - avgRating preferences\<bar> in
                   (if ratingDiff < 0.5 then 20
                    else if ratingDiff < 1.0 then 12
                    else 5)
                   + (if avgRating preferences \<ge> 4.0 \<and> r \<ge> 4.5 then 8 else 0))
             else r * 3)
            + (case ratingCount restaurant of
                 None \<Rightarrow> 0
               | Some rc \<Rightarrow> if rc \<noteq> 0 \<and> rc > 100 then min (rc / 300) 3 else 0))"

definition distanceTerm_page :: "real option \<Rightarrow> UserPreferences \<Rightarrow> real" where
  "distanceTerm_page meters preferences =
     (case meters of
        None \<Rightarrow> 0
      | Some m \<Rightarrow>
          if \<not> (isFinite m \<and> m > 0) then 0
          else
            (if avgDistance preferences > 0
             then (let distanceDiff = \<bar>m - avgDistance preferences\<bar> in
                   (if distanceDiff < 500 then 15
                    else if distanceDiff < 1000 then 10
                    else 0)
                   + (if avgDistance preferences < 1000 \<and> m < 1500 then 12 else 0))
             else 0)
            + (if m < 500 then 10
               else if m < 1000 then 7
               else if m < 2000 then 4
               else if m < 5000 then 1
               else 0))"

definition priceTerm_page :: "FoodStore \<Rightarrow> UserPreferences \<Rightarrow> real" where
  "priceTerm_page restaurant preferences =
     (case priceLevel restaurant of
        None \<Rightarrow> 0
      | Some pl \<Rightarrow>
          (let priceCount = countOf (preferredPriceLevels preferences) pl in
           if priceCount > 0 then priceCount * 5 else - 1))"

definition spiceTerm_page :: "FoodStore \<Rightarrow> UserPreferences \<Rightarrow> real" where
  "spiceTerm_page restaurant preferences =
     (let spiceCount = countOf (preferredSpiceLevels preferences) (spiceLevel restaurant) in
      if spiceCount > 0 then spiceCount * 3 else 0)"

definition diversityTerm_page :: "FoodStore \<Rightarrow> UserPreferences \<Rightarrow> real" where
  "diversityTerm_page restaurant preferences =
     (let cuisineCount = countOf (favoriteCuisines preferences) (cuisine restaurant) in
      if totalSaved preferences \<ge> 5 \<and> cuisineCount = 0 then 2 else 0)"

definition qualityTerm_page :: "FoodStore \<Rightarrow> real" where
  "qualityTerm_page restaurant =
     (if isNew restaurant = Some True then 3 else 0)
     + (case openingHours restaurant of
          None \<Rightarrow> 0
        | Some h \<Rightarrow> if openNow h = Some True then 5 else 0)"

definition scoreRecommendation_page ::
    "distanceCache \<Rightarrow> FoodStore \<Rightarrow> UserPreferences \<Rightarrow> real \<times> distanceCache" where
  "scoreRecommendation_page cache restaurant preferences =
     (let (meters, cache') = parseDistanceToMeters_page cache (distance restaurant) in
      (cuisineTerm_page restaurant preferences
       + ratingTerm_page restaurant preferences
       + distanceTerm_page meters preferences
       + priceTerm_page restaurant preferences
       + spiceTerm_page restaurant preferences
       + diversityTerm_page restaurant preferences
       + qualityTerm_page restaurant,
       cache'))"

section \<open>Ranking the candidates\<close>

text \<open>A candidate with its score, as \<open>fetchRecommendations\<close> pairs them.\<close>

record Scored =
  restaurant :: FoodStore
  score :: real
















section \<open>The place cache and the enrichment of a place\<close>

text \<open>
  The route handler of \<open>/api/restaurants\<close>. Times are milliseconds since the epoch (an
  \<open>int\<close>), as \<open>Date.now()\<close> gives them; a stored timestamp is the time it denotes. The
  detail fields that the handler passes around together (phone, website, opening hours,
  reviews, business status and the description kept in \<open>raw_payload\<close>) are one record,
  \<open>Details\<close>, used for the local \<open>placeDetails\<close>, for the seven detail columns of a
  stored row and for the detail part of the result; the renaming between \<open>author_name\<close>
  and \<open>authorName\<close>, \<open>weekday_text\<close> and \<open>weekdayText\<close> is not modelled.
\<close>

record Photo =
  photo_reference :: string
  photo_width :: "real option"
  photo_height :: "real option"
  html_attributions :: "string list option"

record GalleryEntry =
  entry_id :: string
  image_base64 :: string
  attribution :: "string option"
  entry_width :: "real option"
  entry_height :: "real option"

record Review =
  author_name :: string
  review_rating :: real
  review_text :: string
  review_time :: real

record Details =
  description :: "string option"
  phone :: "string option"
  website :: "string option"
  internationalPhone :: "string option"
  hours :: "OpeningHours option"
  reviews :: "Review list option"
  businessStatus :: "string option"

text \<open>The columns of the table \<open>places\<close> that the handler writes, and a stored row.\<close>

record PlaceFields =
  source :: string
  source_place_id :: string
  place_name :: string
  formatted_address :: "string option"
  lat :: real
  lon :: real
  primary_type :: "string option"
  type_tags :: "string option"
  place_rating :: "real option"
  rating_count :: "real option"
  price_level :: "real option"
  google_photo_reference :: "string option"
  cover_image_base64 :: "string option"
  photo_gallery :: "GalleryEntry list option"
  has_photos :: bool
  row_details :: Details
  last_updated_at :: "int option"
  expires_at :: "int option"

record PlaceRow = PlaceFields +
  row_id :: string

record PhotoRow =
  place_id :: string
  source_photo_id :: string
  photo_image_base64 :: string
  photo_attribution :: "string option"
  row_width :: "real option"
  row_height :: "real option"
  is_primary :: bool

text \<open>The columns that the partial update of a row sets.\<close>

record PlaceUpdate =
  upd_details :: Details
  upd_last_updated_at :: int
  upd_expires_at :: int

text \<open>The argument of \<open>getOrCachePlacePhotos\<close>.\<close>

record PlaceParams =
  placeId :: string
  placeName :: string
  placeLat :: real
  placeLon :: real
  formattedAddress :: "string option"
  primaryType :: "string option"
  types :: "string list option"
  placeRating :: "real option"
  placeRatingCount :: "real option"
  placePriceLevel :: "real option"
  photos :: "Photo list option"

text \<open>
  The \<open>result\<close> of the provider's details call, and the ways the call can end: the
  request throws, the response is not \<open>ok\<close>, or it is \<open>ok\<close> with a body whose \<open>result\<close>
  may be missing.
\<close>

record DetailsResult =
  editorial_overview :: "string option"
  result_reviews :: "Review list option"
  formatted_phone_number :: "string option"
  international_phone_number :: "string option"
  result_website :: "string option"
  opening_hours :: "OpeningHours option"
  business_status :: "string option"
  result_photos :: "Photo list option"

datatype DetailsResponse = DetailsThrows | DetailsNotOk | DetailsOk "DetailsResult option"

text \<open>
  Everything outside the function: the environment variable with the credential, the
  table, the provider's answers and the clock. The answer to a photo request may depend
  on how many photo requests were made before it, so that a repeated request can succeed
  where the first one failed; \<open>None\<close> is a request that throws (a network error, a status
  that is not \<open>ok\<close>, or the ten-second timeout).
\<close>

record World =
  apiKey :: "string option"
  places :: "PlaceRow list"
  detailsResponse :: "string \<Rightarrow> DetailsResponse"
  photoResponse :: "nat \<Rightarrow> string \<Rightarrow> string option"
  upsertedId :: "string option"
  now :: int

text \<open>What a run does to the outside, in order.\<close>

datatype Event =
    DbSelectPlace string
  | DetailsCall string
  | PhotoCall string
  | Delay nat
  | DbUpdatePlace string PlaceUpdate
  | DbUpsertPlace PlaceFields
  | DbUpsertPhoto PhotoRow

fun isUpstreamCall :: "Event \<Rightarrow> bool" where
  "isUpstreamCall (DetailsCall _) = True"
| "isUpstreamCall (PhotoCall _) = True"
| "isUpstreamCall _ = False"

fun isPhotoCall :: "Event \<Rightarrow> bool" where
  "isPhotoCall (PhotoCall _) = True"
| "isPhotoCall _ = False"

definition photoCalls :: "Event list \<Rightarrow> nat" where
  "photoCalls evs = length (filter isPhotoCall evs)"

subsection \<open>Small helpers of the language\<close>

definition optTruthy :: "string option \<Rightarrow> bool" where
  "optTruthy s = (case s of Some t \<Rightarrow> truthy t | None \<Rightarrow> False)"

text \<open>\<open>a ?? b\<close> and \<open>a || b\<close> on optional values.\<close>

definition nullish :: "'a option \<Rightarrow> 'a option \<Rightarrow> 'a option" where
  "nullish a b = (case a of Some x \<Rightarrow> Some x | None \<Rightarrow> b)"

definition orStr :: "string option \<Rightarrow> string option \<Rightarrow> string option" where
  "orStr a b = (if optTruthy a then a else b)"

fun joinWith :: "string \<Rightarrow> string list \<Rightarrow> string" where
  "joinWith sep [] = []"
| "joinWith sep [x] = x"
| "joinWith sep (x # y # zs) = x @ sep @ joinWith sep (y # zs)"

definition ttlMs :: int where
  "ttlMs = 30 * 24 * 60 * 60 * 1000"

subsection \<open>The fallback image\<close>

definition getCuisineFallbackImageFromTypes :: "string list option \<Rightarrow> string" where
  "getCuisineFallbackImageFromTypes ts =
     (let joined = toLowerCase (joinWith '','' (case ts of Some l \<Rightarrow> l | None \<Rightarrow> [])) in
      if strIncludes joined ''mexican''
      then ''https://images.unsplash.com/photo-1617196034796-73dfa7b1fd56?auto=format&fit=crop&w=900&q=80''
      else if strIncludes joined ''sushi'' \<or> strIncludes joined ''japanese''
      then ''https://images.unsplash.com/photo-1546069901-ba9599a7e63c?auto=format&fit=crop&w=900&q=80''
      else if strIncludes joined ''chinese''
      then ''https://images.unsplash.com/photo-1513104890138-7c749659a591?auto=format&fit=crop&w=900&q=80''
      else if strIncludes joined ''indian''
      then ''https://images.unsplash.com/photo-1565557623262-b51c2513a641?auto=format&fit=crop&w=900&q=80''
      else if strIncludes joined ''pizza'' \<or> strIncludes joined ''italian''
      then ''https://images.unsplash.com/photo-1513104890138-7c749659a591?auto=format&fit=crop&w=900&q=80''
      else if strIncludes joined ''burger''
      then ''https://images.unsplash.com/photo-1550547660-d9450f859349?auto=format&fit=crop&w=900&q=80''
      else ''https://images.unsplash.com/photo-1521017432531-fbd92d768814?auto=format&fit=crop&w=900&q=80'')"

subsection \<open>getOrCachePlacePhotos\<close>

record PlaceDetails =
  cover :: string
  gallery :: "string list"
  details :: Details

definition emptyDetails :: Details where
  "emptyDetails =
     \<lparr>description = None, phone = None, website = None, internationalPhone = None,
      hours = None, reviews = None, businessStatus = None\<rparr>"

text \<open>
  The select with \<open>maybeSingle\<close>: the row when exactly one matches; no data when none
  does, or when several do (an error that the function logs and then ignores).
\<close>

definition selectExisting :: "World \<Rightarrow> string \<Rightarrow> PlaceRow option" where
  "selectExisting w pid =
     (case filter (\<lambda>r. source r = ''google'' \<and> source_place_id r = pid) (places w) of
        [r] \<Rightarrow> Some r
      | _ \<Rightarrow> None)"

definition isCacheValid :: "World \<Rightarrow> PlaceRow option \<Rightarrow> bool" where
  "isCacheValid w existing =
     (case existing of
        None \<Rightarrow> False
      | Some ex \<Rightarrow>
          (case expires_at ex of
             Some e \<Rightarrow> e > now w
           | None \<Rightarrow>
               (case last_updated_at ex of
                  Some u \<Rightarrow> real_of_int (now w - u) / (1000 * 60 * 60 * 24) < 30
                | None \<Rightarrow> False)))"

text \<open>The images of a stored gallery: the truthy ones, four at most.\<close>

definition cachedUrls :: "GalleryEntry list \<Rightarrow> string list" where
  "cachedUrls g = take 4 (filter truthy (map image_base64 g))"

text \<open>\<open>existing.cover_image_base64 || allUrls[0] || fallback\<close>.\<close>

definition coverOr :: "string option \<Rightarrow> string list \<Rightarrow> string \<Rightarrow> string" where
  "coverOr c allUrls fallback =
     (case c of
        Some u \<Rightarrow> if truthy u then u else (case allUrls of v # _ \<Rightarrow> v | [] \<Rightarrow> fallback)
      | None \<Rightarrow> (case allUrls of v # _ \<Rightarrow> v | [] \<Rightarrow> fallback))"

text \<open>\<open>allUrls.length > 1 ? allUrls.slice(1, 4) : []\<close>.\<close>

definition withoutCover :: "string list \<Rightarrow> string list" where
  "withoutCover allUrls = (if length allUrls > 1 then take 3 (drop 1 allUrls) else [])"

text \<open>
  The description taken from the details: the editorial summary, else the first review,
  cut at 200 characters.
\<close>

definition describeFrom :: "DetailsResult \<Rightarrow> string option" where
  "describeFrom res =
     (if optTruthy (editorial_overview res) then editorial_overview res
      else
        (case result_reviews res of
           Some (r # _) \<Rightarrow>
             if truthy (review_text r)
             then Some (take 200 (review_text r)
                        @ (if length (review_text r) > 200 then ''...'' else []))
             else None
         | _ \<Rightarrow> None))"

text \<open>
  The details call and what it leaves in \<open>placeDetails\<close> and \<open>photos\<close>. A response that
  is not \<open>ok\<close> and a request that throws leave both as they were; so does a body without
  \<open>result\<close>, where reading the phone number throws inside the \<open>try\<close>.
\<close>

definition detailsStage ::
    "World \<Rightarrow> PlaceParams \<Rightarrow> Event list \<Rightarrow> Details \<times> Photo list option \<times> Event list" where
  "detailsStage w params evs =
     (let evs = evs @ [DetailsCall (placeId params)] in
      case detailsResponse w (placeId params) of
        DetailsThrows \<Rightarrow> (emptyDetails, photos params, evs)
      | DetailsNotOk \<Rightarrow> (emptyDetails, photos params, evs)
      | DetailsOk None \<Rightarrow> (emptyDetails, photos params, evs)
      | DetailsOk (Some res) \<Rightarrow>
          (\<lparr>description = describeFrom res,
            phone = formatted_phone_number res,
            website = result_website res,
            internationalPhone = international_phone_number res,
            hours = opening_hours res,
            reviews = (case result_reviews res of
                         Some rs \<Rightarrow> if length rs > 0 then Some (take 5 rs) else None
                       | None \<Rightarrow> None),
            businessStatus = business_status res\<rparr>,
           (case result_photos res of
              None \<Rightarrow> photos params
            | Some ps \<Rightarrow>
                if length ps > 0 \<and> (case photos params of None \<Rightarrow> True | Some l \<Rightarrow> length l = 0)
                then Some ps
                else if length ps > (case photos params of None \<Rightarrow> 0 | Some l \<Rightarrow> length l)
                then Some ps
                else photos params),
           evs))"

text \<open>
  One photo, with its retries: \<open>retries\<close> starts at two, a request that throws takes one
  away, and between a failed request and the next one the function waits 100 ms. The
  number of photo requests made so far selects the provider's answer.
\<close>

fun fetchWithRetries ::
    "World \<Rightarrow> string \<Rightarrow> nat \<Rightarrow> Event list \<Rightarrow> string option \<times> Event list" where
  "fetchWithRetries w photoRef 0 evs = (None, evs)"
| "fetchWithRetries w photoRef (Suc retries) evs =
     (case photoResponse w (photoCalls evs) photoRef of
        Some dataUrl \<Rightarrow> (Some dataUrl, evs @ [PhotoCall photoRef])
      | None \<Rightarrow>
          if retries = 0 then (None, evs @ [PhotoCall photoRef])
          else fetchWithRetries w photoRef retries (evs @ [PhotoCall photoRef, Delay 100]))"

definition entryOf :: "Photo \<Rightarrow> string \<Rightarrow> GalleryEntry" where
  "entryOf photo dataUrl =
     \<lparr>entry_id = photo_reference photo,
      image_base64 = dataUrl,
      attribution = map_option (joinWith '' '') (html_attributions photo),
      entry_width = photo_width photo,
      entry_height = photo_height photo\<rparr>"

text \<open>The loop over the photo references, collecting \<open>galleryEntries\<close>.\<close>

fun photoLoop ::
    "World \<Rightarrow> Photo list \<Rightarrow> GalleryEntry list \<Rightarrow> Event list \<Rightarrow> GalleryEntry list \<times> Event list" where
  "photoLoop w [] galleryEntries evs = (galleryEntries, evs)"
| "photoLoop w (photo # rest) galleryEntries evs =
     (if \<not> truthy (photo_reference photo) then photoLoop w rest galleryEntries evs
      else
        (case fetchWithRetries w (photo_reference photo) 2 evs of
           (Some dataUrl, evs') \<Rightarrow>
             photoLoop w rest (galleryEntries @ [entryOf photo dataUrl]) evs'
         | (None, evs') \<Rightarrow> photoLoop w rest galleryEntries evs'))"

text \<open>The row that an upsert writes, for given details and gallery.\<close>

definition storedDetails :: "Details \<Rightarrow> Details" where
  "storedDetails placeDetails =
     placeDetails\<lparr>description :=
       (if optTruthy (description placeDetails) then description placeDetails else None)\<rparr>"

definition upsertFields ::
    "World \<Rightarrow> PlaceParams \<Rightarrow> Details \<Rightarrow> GalleryEntry list \<Rightarrow> PlaceFields" where
  "upsertFields w params placeDetails galleryEntries =
     \<lparr>source = ''google'',
      source_place_id = placeId params,
      place_name = placeName params,
      formatted_address = formattedAddress params,
      lat = placeLat params,
      lon = placeLon params,
      primary_type = Some (case primaryType params of Some t \<Rightarrow> t | None \<Rightarrow> ''restaurant''),
      type_tags = map_option (joinWith '','') (types params),
      place_rating = placeRating params,
      rating_count = placeRatingCount params,
      price_level = placePriceLevel params,
      google_photo_reference =
        (case galleryEntries of e # _ \<Rightarrow> Some (entry_id e) | [] \<Rightarrow> None),
      cover_image_base64 =
        (case galleryEntries of e # _ \<Rightarrow> Some (image_base64 e) | [] \<Rightarrow> None),
      photo_gallery = Some galleryEntries,
      has_photos = (galleryEntries \<noteq> []),
      row_details = storedDetails placeDetails,
      last_updated_at = Some (now w),
      expires_at = Some (now w + ttlMs)\<rparr>"

text \<open>The upserts into \<open>place_photos\<close>, the first entry being the primary one.\<close>

fun photoUpserts :: "string \<Rightarrow> nat \<Rightarrow> GalleryEntry list \<Rightarrow> Event list" where
  "photoUpserts pid index [] = []"
| "photoUpserts pid index (entry # rest) =
     DbUpsertPhoto
       \<lparr>place_id = pid, source_photo_id = entry_id entry,
        photo_image_base64 = image_base64 entry, photo_attribution = attribution entry,
        row_width = entry_width entry, row_height = entry_height entry,
        is_primary = (index = 0)\<rparr>
     # photoUpserts pid (Suc index) rest"

text \<open>The two ways the function merges fresh details with a stored row.\<close>

definition mergeForUpdate :: "Details \<Rightarrow> Details \<Rightarrow> Details" where
  "mergeForUpdate placeDetails stored =
     \<lparr>description = (if optTruthy (description placeDetails)
                      then description placeDetails else description stored),
      phone = nullish (phone placeDetails) (phone stored),
      website = nullish (website placeDetails) (website stored),
      internationalPhone = nullish (internationalPhone placeDetails) (internationalPhone stored),
      hours = nullish (hours placeDetails) (hours stored),
      reviews = nullish (reviews placeDetails) (reviews stored),
      businessStatus = nullish (businessStatus placeDetails) (businessStatus stored)\<rparr>"

definition mergeForResult :: "Details \<Rightarrow> Details \<Rightarrow> Details" where
  "mergeForResult placeDetails stored =
     \<lparr>description = orStr (description placeDetails) (description stored),
      phone = orStr (phone placeDetails) (phone stored),
      website = orStr (website placeDetails) (website stored),
      internationalPhone = orStr (internationalPhone placeDetails) (internationalPhone stored),
      hours = nullish (hours placeDetails) (hours stored),
      reviews = nullish (reviews placeDetails) (reviews stored),
      businessStatus = orStr (businessStatus placeDetails) (businessStatus stored)\<rparr>"

text \<open>The photo references that can be requested.\<close>

definition photoRefsOf :: "Photo list option \<Rightarrow> Photo list" where
  "photoRefsOf ps =
     (case ps of Some l \<Rightarrow> filter (\<lambda>p. truthy (photo_reference p)) l | None \<Rightarrow> [])"

text \<open>
  The last part of the function: the photo requests for the first four references, and
  the result made of what they gave.
\<close>

definition fetchAndStore ::
    "World \<Rightarrow> PlaceParams \<Rightarrow> string \<Rightarrow> Details \<Rightarrow> Photo list \<Rightarrow> Event list
       \<Rightarrow> PlaceDetails \<times> Event list" where
  "fetchAndStore w params fallback placeDetails photoRefs evs =
     (let maxPhotos = min 4 (length photoRefs);
          (galleryEntries, evs) = photoLoop w (take maxPhotos photoRefs) [] evs
      in if length galleryEntries = 0
         then (\<lparr>cover = fallback, gallery = [], details = placeDetails\<rparr>, evs)
         else
           (let coverDataUrl = image_base64 (hd galleryEntries);
                galleryWithoutCover =
                  filter truthy (map image_base64 (take 3 (drop 1 galleryEntries)));
                evs = evs @ [DbUpsertPlace (upsertFields w params placeDetails galleryEntries)];
                evs = (case upsertedId w of
                         Some pid \<Rightarrow>
                           if truthy pid then evs @ photoUpserts pid 0 galleryEntries else evs
                       | None \<Rightarrow> evs)
            in (\<lparr>cover = coverDataUrl, gallery = galleryWithoutCover,
                 details = placeDetails\<rparr>, evs)))"

text \<open>
  \<open>hasCompleteCache\<close>: the stored row has a phone number, a website, opening hours and
  reviews, and is still valid.
\<close>

definition hasCompleteCache :: "World \<Rightarrow> PlaceRow option \<Rightarrow> bool" where
  "hasCompleteCache w existing =
     (case existing of
        None \<Rightarrow> False
      | Some ex \<Rightarrow>
          optTruthy (phone (row_details ex)) \<and> optTruthy (website (row_details ex))
          \<and> hours (row_details ex) \<noteq> None \<and> reviews (row_details ex) \<noteq> None
          \<and> isCacheValid w existing)"

text \<open>
  \<open>hasCachedPhotos\<close>: the stored row has a cover and a non-empty gallery, and is still
  valid.
\<close>

definition hasCachedPhotos :: "World \<Rightarrow> PlaceRow option \<Rightarrow> bool" where
  "hasCachedPhotos w existing =
     (case existing of
        None \<Rightarrow> False
      | Some ex \<Rightarrow>
          optTruthy (cover_image_base64 ex)
          \<and> (case photo_gallery ex of Some g \<Rightarrow> length g > 0 | None \<Rightarrow> False)
          \<and> isCacheValid w existing)"

text \<open>
  The function from the photo references on: the photos of a valid stored gallery are
  served again (with an update of the row when new details came in), a place without
  photo references is stored with the fallback cover, and otherwise the photos are
  fetched.
\<close>

definition photoStage ::
    "World \<Rightarrow> PlaceParams \<Rightarrow> string \<Rightarrow> PlaceRow option \<Rightarrow> Details \<Rightarrow> Photo list
       \<Rightarrow> Event list \<Rightarrow> PlaceDetails \<times> Event list" where
  "photoStage w params fallback existing placeDetails photoRefs evs =
     (case existing of
        Some ex \<Rightarrow>
          if hasCachedPhotos w existing \<and> length photoRefs > 0
          then
            (let allUrls = cachedUrls (case photo_gallery ex of Some g \<Rightarrow> g | None \<Rightarrow> []);
                 evs = (if \<not> hasCompleteCache w existing
                           \<and> (optTruthy (phone placeDetails) \<or> optTruthy (website placeDetails)
                               \<or> hours placeDetails \<noteq> None)
                        then evs @ [DbUpdatePlace (row_id ex)
                               \<lparr>upd_details = mergeForUpdate placeDetails (row_details ex),
                                upd_last_updated_at = now w,
                                upd_expires_at = now w + ttlMs\<rparr>]
                        else evs)
             in (\<lparr>cover = coverOr (cover_image_base64 ex) allUrls fallback,
                  gallery = withoutCover allUrls,
                  details = mergeForResult placeDetails (row_details ex)\<rparr>, evs))
          else if length photoRefs = 0
          then (\<lparr>cover = fallback, gallery = [], details = placeDetails\<rparr>,
                evs @ [DbUpsertPlace (upsertFields w params placeDetails [])])
          else fetchAndStore w params fallback placeDetails photoRefs evs
      | None \<Rightarrow>
          if length photoRefs = 0
          then (\<lparr>cover = fallback, gallery = [], details = placeDetails\<rparr>,
                evs @ [DbUpsertPlace (upsertFields w params placeDetails [])])
          else fetchAndStore w params fallback placeDetails photoRefs evs)"

text \<open>
  What follows once the stored row did not answer the call by itself: the details call,
  unless the stored details are complete, and then the photos.
\<close>

definition afterCacheMiss ::
    "World \<Rightarrow> PlaceParams \<Rightarrow> string \<Rightarrow> PlaceRow option \<Rightarrow> Event list
       \<Rightarrow> PlaceDetails \<times> Event list" where
  "afterCacheMiss w params fallback existing evs =
     (let (placeDetails, photos', evs) =
            (if \<not> hasCompleteCache w existing then detailsStage w params evs
             else (emptyDetails, photos params, evs))
      in photoStage w params fallback existing placeDetails (photoRefsOf photos') evs)"

definition getOrCachePlacePhotos :: "World \<Rightarrow> PlaceParams \<Rightarrow> PlaceDetails \<times> Event list" where
  "getOrCachePlacePhotos w params =
     (let fallback = getCuisineFallbackImageFromTypes (types params) in
      if \<not> optTruthy (apiKey w)
      then (\<lparr>cover = fallback, gallery = [], details = emptyDetails\<rparr>, [])
      else
        (let existing = selectExisting w (placeId params);
             evs = [DbSelectPlace (placeId params)]
         in case existing of
              Some ex \<Rightarrow>
                if optTruthy (cover_image_base64 ex) \<and> isCacheValid w existing
                then
                  (let allUrls = (case photo_gallery ex of
                                    Some g \<Rightarrow> if length g > 0 then cachedUrls g else []
                                  | None \<Rightarrow> [])
                   in (\<lparr>cover = coverOr (cover_image_base64 ex) allUrls fallback,
                        gallery = withoutCover allUrls,
                        details = row_details ex\<rparr>, evs))
                else afterCacheMiss w params fallback existing evs
            | None \<Rightarrow> afterCacheMiss w params fallback existing evs))"

subsection \<open>The cache lookup of the search\<close>

text \<open>
  The query that \<open>GET\<close> sends to the table before it asks the provider: the rows of the
  provider inside the bounding box, with a cover, updated within the last 30 days, 60 at
  most. The query has no order, so which 60 is up to the store; the model takes the first
  60 in the table's order. The radius is the parsed one, clamped to 200 .. 5000.
\<close>

definition inSearchBox :: "real \<Rightarrow> real \<Rightarrow> real \<Rightarrow> PlaceRow \<Rightarrow> bool" where
  "inSearchBox qlat qlon radius p =
     (let clampedRadius = max 200 (min 5000 radius);
          searchRadius = clampedRadius * 1.2;
          latDelta = searchRadius / 111000;
          lonDelta = searchRadius / (111000 * cos (qlat * pi / 180))
      in lat p \<ge> qlat - latDelta \<and> lat p \<le> qlat + latDelta
         \<and> lon p \<ge> qlon - lonDelta \<and> lon p \<le> qlon + lonDelta)"

definition updatedWithin30Days :: "int \<Rightarrow> PlaceRow \<Rightarrow> bool" where
  "updatedWithin30Days t p =
     (case last_updated_at p of
        Some u \<Rightarrow> u > t - 30 * 24 * 60 * 60 * 1000
      | None \<Rightarrow> False)"

definition cachedPlacesQuery :: "World \<Rightarrow> real \<Rightarrow> real \<Rightarrow> real \<Rightarrow> PlaceRow list" where
  "cachedPlacesQuery w qlat qlon radius =
     take 60
       (filter (\<lambda>p. source p = ''google''
                   \<and> inSearchBox qlat qlon radius p
                   \<and> cover_image_base64 p \<noteq> None
                   \<and> updatedWithin30Days (now w) p)
          (places w))"

text \<open>
  The rows that the handler then serves from the cache: all of them when there are at
  least five.
\<close>

definition placesFromCache :: "World \<Rightarrow> real \<Rightarrow> real \<Rightarrow> real \<Rightarrow> PlaceRow list" where
  "placesFromCache w qlat qlon radius =
     (let cachedPlaces = cachedPlacesQuery w qlat qlon radius in
      if length cachedPlaces \<ge> 5 then cachedPlaces else [])"

subsection \<open>The first checks of the route handler\<close>

text \<open>
  \<open>GET\<close> reads the coordinate from the query string and answers 400 when either part is
  not a finite number; it then answers 500, with an empty list of restaurants, when the
  provider key is missing. Only after both checks does it look up the cache, search, and
  enrich the places found.
\<close>

datatype Guard = BadRequest | NotConfigured | Proceed

definition GET_guard :: "World \<Rightarrow> string option \<Rightarrow> string option \<Rightarrow> Guard" where
  "GET_guard w latParam lonParam =
     (case (parseFloat (case latParam of Some t \<Rightarrow> t | None \<Rightarrow> []),
            parseFloat (case lonParam of Some t \<Rightarrow> t | None \<Rightarrow> [])) of
        (Some qlat, Some qlon) \<Rightarrow>
          if \<not> isFinite qlat \<or> \<not> isFinite qlon then BadRequest
          else if \<not> optTruthy (apiKey w) then NotConfigured
          else Proceed
      | _ \<Rightarrow> BadRequest)"

subsection \<open>The table under the writes of the handler\<close>

text \<open>
  The table belongs to the store; the handler sends it writes. An upsert overwrites the
  columns it names in the row with the same source and place id, or adds a row under a
  new id when there is none; an update sets its columns in the row with the given id;
  either may fail and leave the table as it was. The tables that the handler produces are
  those that arise from the empty table by such writes: each is an event of a run of
  \<open>getOrCachePlacePhotos\<close> on the table as it stands.
\<close>

definition rowOf :: "PlaceFields \<Rightarrow> string \<Rightarrow> PlaceRow" where
  "rowOf f i =
     \<lparr>source = source f, source_place_id = source_place_id f, place_name = place_name f,
      formatted_address = formatted_address f, lat = lat f, lon = lon f,
      primary_type = primary_type f, type_tags = type_tags f,
      place_rating = place_rating f, rating_count = rating_count f,
      price_level = price_level f, google_photo_reference = google_photo_reference f,
      cover_image_base64 = cover_image_base64 f, photo_gallery = photo_gallery f,
      has_photos = has_photos f, row_details = row_details f,
      last_updated_at = last_updated_at f, expires_at = expires_at f, row_id = i\<rparr>"

definition sameKey :: "PlaceFields \<Rightarrow> PlaceRow \<Rightarrow> bool" where
  "sameKey f r = (source r = source f \<and> source_place_id r = source_place_id f)"

text \<open>
  The row after an upsert that finds it: the photo reference is a column that the upsert
  of a place without photos does not name, and that keeps its value then.
\<close>

definition overwritten :: "PlaceFields \<Rightarrow> PlaceRow \<Rightarrow> PlaceRow" where
  "overwritten f r =
     (rowOf f (row_id r))
       \<lparr>google_photo_reference :=
          nullish (google_photo_reference f) (google_photo_reference r)\<rparr>"

fun applyWrite :: "Event \<Rightarrow> string \<Rightarrow> PlaceRow list \<Rightarrow> PlaceRow list" where
  "applyWrite (DbUpsertPlace f) newId tbl =
     (if list_ex (sameKey f) tbl
      then map (\<lambda>r. if sameKey f r then overwritten f r else r) tbl
      else tbl @ [rowOf f newId])"
| "applyWrite (DbUpdatePlace i u) newId tbl =
     map (\<lambda>r. if row_id r = i
              then r\<lparr>row_details := upd_details u,
                     last_updated_at := Some (upd_last_updated_at u),
                     expires_at := Some (upd_expires_at u)\<rparr>
              else r) tbl"
| "applyWrite _ newId tbl = tbl"

inductive producedTable :: "PlaceRow list \<Rightarrow> bool" where
  empty: "producedTable []"
| written: "producedTable tbl \<Longrightarrow> places w = tbl
          \<Longrightarrow> e \<in> set (snd (getOrCachePlacePhotos w params))
          \<Longrightarrow> producedTable (applyWrite e newId tbl)"

section \<open>Notions used in the statements\<close>

text \<open>
  The specification describes the two averages of the profile as taken over the saved
  entries whose value is defined. \<open>meanOf\<close> and \<open>definedRatings\<close> follow its words, to be
  compared with what \<open>extractPreferences\<close> computes.
\<close>

definition meanOf :: "real list \<Rightarrow> real" where
  "meanOf xs = (if xs = [] then 0 else sum_list xs / real (length xs))"

definition definedRatings :: "FoodStore list \<Rightarrow> real list" where
  "definedRatings saved = List.map_filter rating saved"

text \<open>
  What the code averages: the ratings above zero, and the distances that parse to a
  finite number.
\<close>

definition positiveRatings :: "FoodStore list \<Rightarrow> real list" where
  "positiveRatings saved = filter (\<lambda>r. r > 0) (definedRatings saved)"

definition parsedDistances :: "FoodStore list \<Rightarrow> real list" where
  "parsedDistances saved = List.map_filter (\<lambda>s. parseDistanceToMeters (distance s)) saved"

definition finiteDistances :: "FoodStore list \<Rightarrow> real list" where
  "finiteDistances saved = filter isFinite (parsedDistances saved)"


text \<open>
  A stored row as the handler writes it has its expiry 30 days after its last update, or
  later by the time that passes between the two readings of the clock in a write; a row
  is expired at a time that its expiry does not exceed.
\<close>

definition expiryAsWritten :: "PlaceRow \<Rightarrow> bool" where
  "expiryAsWritten p =
     (case (last_updated_at p, expires_at p) of
        (Some u, Some e) \<Rightarrow> e \<ge> u + ttlMs
      | _ \<Rightarrow> False)"

definition expiredAt :: "int \<Rightarrow> PlaceRow \<Rightarrow> bool" where
  "expiredAt t p = (case expires_at p of Some e \<Rightarrow> e \<le> t | None \<Rightarrow> False)"

text \<open>The timestamps of the writes among the events of a run.\<close>

fun writeStamps :: "Event \<Rightarrow> (int option \<times> int option) option" where
  "writeStamps (DbUpsertPlace f) = Some (last_updated_at f, expires_at f)"
| "writeStamps (DbUpdatePlace _ u) = Some (Some (upd_last_updated_at u), Some (upd_expires_at u))"
| "writeStamps _ = None"

text \<open>
  Every write among the events carries the time of the run as its last update and 30 days
  later as its expiry.
\<close>

definition stampsAsWritten :: "World \<Rightarrow> Event list \<Rightarrow> bool" where
  "stampsAsWritten w evs =
     list_all (\<lambda>e. case writeStamps e of
                      None \<Rightarrow> True
                    | Some s \<Rightarrow> s = (Some (now w), Some (now w + ttlMs))) evs"

text \<open>
  The gallery entries that the loop over the photo references collects when it starts
  after \<open>n\<close> photo requests: a photo takes one request when that one is answered, and two
  otherwise; it gives an entry when either is answered.
\<close>

fun collected :: "World \<Rightarrow> nat \<Rightarrow> Photo list \<Rightarrow> GalleryEntry list" where
  "collected w n [] = []"
| "collected w n (p # ps) =
     (case photoResponse w n (photo_reference p) of
        Some u \<Rightarrow> entryOf p u # collected w (n + 1) ps
      | None \<Rightarrow>
          (case photoResponse w (n + 1) (photo_reference p) of
             Some u \<Rightarrow> entryOf p u # collected w (n + 2) ps
           | None \<Rightarrow> collected w (n + 2) ps))"

text \<open>A reference that the provider answers at every request, and one that it never answers.\<close>

definition alwaysAnswered :: "World \<Rightarrow> string \<Rightarrow> bool" where
  "alwaysAnswered w r = (\<forall>n. photoResponse w n r \<noteq> None)"

definition neverAnswered :: "World \<Rightarrow> string \<Rightarrow> bool" where
  "neverAnswered w r = (\<forall>n. photoResponse w n r = None)"

text \<open>
  The stored row does not answer the call by itself: there is none, or it has no cover,
  or it is no longer valid.
\<close>

definition cacheMiss :: "World \<Rightarrow> PlaceParams \<Rightarrow> bool" where
  "cacheMiss w params =
     (case selectExisting w (placeId params) of
        None \<Rightarrow> True
      | Some ex \<Rightarrow> \<not> (optTruthy (cover_image_base64 ex) \<and> isCacheValid w (Some ex)))"

text \<open>
  The result that the place gets from the entries that were fetched: the first is the
  cover and the next three are the gallery; without any, the fallback image.
\<close>

definition resultFrom :: "string \<Rightarrow> Details \<Rightarrow> GalleryEntry list \<Rightarrow> PlaceDetails" where
  "resultFrom fallback d entries =
     (case entries of
        [] \<Rightarrow> \<lparr>cover = fallback, gallery = [], details = d\<rparr>
      | e # es \<Rightarrow> \<lparr>cover = image_base64 e,
                   gallery = filter truthy (map image_base64 (take 3 es)),
                   details = d\<rparr>)"

text \<open>The details and photo references that the function has after the details call.\<close>

definition detailsAndRefs :: "World \<Rightarrow> PlaceParams \<Rightarrow> Details \<times> Photo list" where
  "detailsAndRefs w params =
     (let (placeDetails, photos', evs) =
            (if \<not> hasCompleteCache w (selectExisting w (placeId params))
             then detailsStage w params [DbSelectPlace (placeId params)]
             else (emptyDetails, photos params, [DbSelectPlace (placeId params)]))
      in (placeDetails, photoRefsOf photos'))"

text \<open>
  The fallback image in the words of the specification: a small fixed lookup from cuisine
  keywords to stock images, keyed off the category tags of the place. The tags are joined
  and lower-cased; the first entry of the table one of whose keywords occurs in them gives
  the image, and the default image stands for a place that matches none.
\<close>

definition stockImages :: "(string list \<times> string) list" where
  "stockImages =
     [([''mexican''],
       ''https://images.unsplash.com/photo-1617196034796-73dfa7b1fd56?auto=format&fit=crop&w=900&q=80''),
      ([''sushi'', ''japanese''],
       ''https://images.unsplash.com/photo-1546069901-ba9599a7e63c?auto=format&fit=crop&w=900&q=80''),
      ([''chinese''],
       ''https://images.unsplash.com/photo-1513104890138-7c749659a591?auto=format&fit=crop&w=900&q=80''),
      ([''indian''],
       ''https://images.unsplash.com/photo-1565557623262-b51c2513a641?auto=format&fit=crop&w=900&q=80''),
      ([''pizza'', ''italian''],
       ''https://images.unsplash.com/photo-1513104890138-7c749659a591?auto=format&fit=crop&w=900&q=80''),
      ([''burger''],
       ''https://images.unsplash.com/photo-1550547660-d9450f859349?auto=format&fit=crop&w=900&q=80'')]"

definition defaultImage :: string where
  "defaultImage =
     ''https://images.unsplash.com/photo-1521017432531-fbd92d768814?auto=format&fit=crop&w=900&q=80''"

fun firstMatch :: "(string list \<times> string) list \<Rightarrow> string \<Rightarrow> string" where
  "firstMatch [] joined = defaultImage"
| "firstMatch ((keywords, stock) # rest) joined =
     (if list_ex (strIncludes joined) keywords then stock else firstMatch rest joined)"

definition keywordImage :: "string list option \<Rightarrow> string" where
  "keywordImage tags =
     firstMatch stockImages
       (toLowerCase (joinWith '','' (case tags of Some l \<Rightarrow> l | None \<Rightarrow> [])))"

section \<open>Concrete inputs\<close>

text \<open>A store in which every field is missing.\<close>

definition plainStore :: FoodStore where
  "plainStore =
     \<lparr>store_id = [], name = [], cuisine = [], spiceLevel = [], distance = [],
      isNew = None, rating = None, ratingCount = None, priceLevel = None,
      openingHours = None\<rparr>"

text \<open>Scenario A of the specification.\<close>

definition scenarioA_saved :: "FoodStore list" where
  "scenarioA_saved =
     [plainStore\<lparr>cuisine := ''Italian'', rating := Some 4.5, distance := ''0.5 km away'',
                 priceLevel := Some 2\<rparr>]"

definition scenarioA_candidate :: FoodStore where
  "scenarioA_candidate =
     plainStore\<lparr>cuisine := ''Italian'', rating := Some 4.6, distance := ''0.6 km away'',
                priceLevel := Some 2, ratingCount := Some 150\<rparr>"






text \<open>A candidate two miles away, and one with a price level.\<close>

definition milesStore :: FoodStore where
  "milesStore = plainStore\<lparr>distance := ''2 mi away''\<rparr>"

definition pricedStore :: FoodStore where
  "pricedStore = plainStore\<lparr>priceLevel := Some 2\<rparr>"

text \<open>Two saved places, one of them rated zero.\<close>

definition zeroRatedSaved :: "FoodStore list" where
  "zeroRatedSaved = [plainStore\<lparr>rating := Some 0\<rparr>, plainStore\<lparr>rating := Some 4\<rparr>]"

text \<open>
  A table with one row inside the search box around (0, 0), written 31 days before the
  query.
\<close>

definition rowAt :: "int option \<Rightarrow> int option \<Rightarrow> PlaceRow" where
  "rowAt updated expires =
     \<lparr>source = ''google'', source_place_id = ''p1'', place_name = ''Cafe'',
      formatted_address = None, lat = 0, lon = 0, primary_type = None, type_tags = None,
      place_rating = None, rating_count = None, price_level = None,
      google_photo_reference = None, cover_image_base64 = Some ''data:x'',
      photo_gallery = None, has_photos = True, row_details = emptyDetails,
      last_updated_at = updated, expires_at = expires, row_id = ''1''\<rparr>"

definition worldWith :: "PlaceRow list \<Rightarrow> World" where
  "worldWith rows =
     \<lparr>apiKey = Some ''key'', places = rows, detailsResponse = (\<lambda>_. DetailsNotOk),
      photoResponse = (\<lambda>_ _. None), upsertedId = None, now = 1000000000000\<rparr>"

definition oldRow :: PlaceRow where
  "oldRow = rowAt (Some (1000000000000 - 31 * 86400000))
                  (Some (1000000000000 - 31 * 86400000 + ttlMs))"

text \<open>
  A place with five photo references and a provider that always fails on \<open>bad\<close>, fails
  on \<open>flaky\<close> at the second photo request of the run only, and answers every other
  request.
\<close>

definition photoRef :: "string \<Rightarrow> Photo" where
  "photoRef r =
     \<lparr>photo_reference = r, photo_width = None, photo_height = None,
      html_attributions = None\<rparr>"

definition flakyWorld :: World where
  "flakyWorld =
     \<lparr>apiKey = Some ''key'', places = [], detailsResponse = (\<lambda>_. DetailsNotOk),
      photoResponse = (\<lambda>n r. if r = ''bad'' then None
                              else if r = ''flaky'' \<and> n = 1 then None
                              else Some (''data:'' @ r)),
      upsertedId = Some ''7'', now = 1000\<rparr>"

definition sushiPlace :: PlaceParams where
  "sushiPlace =
     \<lparr>placeId = ''p1'', placeName = ''Sakura'', placeLat = 0, placeLon = 0,
      formattedAddress = None, primaryType = None,
      types = Some [''restaurant'', ''Sushi_bar''],
      placeRating = None, placeRatingCount = None, placePriceLevel = None,
      photos = Some [photoRef ''a'', photoRef ''flaky'', photoRef ''bad'',
                     photoRef ''c'', photoRef ''d'']\<rparr>"

text \<open>
  A place with one photo reference, and a provider that fails on the first two photo
  requests of a run and answers from the third on.
\<close>

definition onePhotoPlace :: PlaceParams where
  "onePhotoPlace = sushiPlace\<lparr>photos := Some [photoRef ''x'']\<rparr>"

definition thirdTimeWorld :: World where
  "thirdTimeWorld =
     flakyWorld\<lparr>photoResponse := (\<lambda>n r. if n < 2 then None else Some (''data:'' @ r))\<rparr>"

definition thirdTimeEvents :: "Event list" where
  "thirdTimeEvents = snd (getOrCachePlacePhotos thirdTimeWorld onePhotoPlace)"

text \<open>Places with other category tags, and one with none.\<close>

definition taqueria :: PlaceParams where
  "taqueria = sushiPlace\<lparr>types := Some [''restaurant'', ''Mexican_restaurant'']\<rparr>"

definition untagged :: PlaceParams where
  "untagged = sushiPlace\<lparr>types := None\<rparr>"

text \<open>The events of the run on the first place.\<close>

definition flakyEvents :: "Event list" where
  "flakyEvents = snd (getOrCachePlacePhotos flakyWorld sushiPlace)"

text \<open>
  The table after the run on the first place, the row being stored under the id 7, and
  the same world 31 days later.
\<close>

definition flakyTable :: "PlaceRow list" where
  "flakyTable =
     applyWrite (DbUpsertPlace (upsertFields flakyWorld sushiPlace emptyDetails
                   (fst (photoLoop flakyWorld (take 4 (photoRefsOf (photos sushiPlace))) []
                          [DbSelectPlace ''p1'', DetailsCall ''p1'']))))
       ''7'' []"

definition laterWorld :: World where
  "laterWorld = flakyWorld\<lparr>places := flakyTable, now := 1000 + 31 * 86400000\<rparr>"

text \<open>Two saved places, one of them at a distance beyond the range of doubles.\<close>

definition overflowSaved :: "FoodStore list" where
  "overflowSaved =
     [plainStore\<lparr>distance := ''1e309 km''\<rparr>, plainStore\<lparr>distance := ''1 km away''\<rparr>]"

section \<open>Facts about the overflow bound\<close>

text \<open>The bound written out, for evaluation.\<close>

lemma overflowBound_code [code]:
  "overflowBound =
     179769313486231580793728971405303415079934132710037826936173778980444968292764750946649017977587207096330286416692887910946555547851940402630657488671505820681908902000708383676273854845817711531764475730270069855571366959622842914819860834936475292719074168444365510704342711559699508093042880177904174497792"
  unfolding overflowBound_def by simp

lemma overflowBound_split: "overflowBound = 2 ^ 970 * (2 ^ 54 - 1)"
proof -
  have "(2::real) ^ 1024 = 2 ^ 970 * 2 ^ 54" by (simp add: power_add[symmetric])
  then show ?thesis
    unfolding overflowBound_def by (simp only: right_diff_distrib mult_1_right)
qed

lemma overflowBound_large: "overflowBound > 10000"
proof -
  have a: "(2::real) ^ 970 \<ge> 1" by (rule one_le_power) simp
  have b: "(2::real) ^ 54 - 1 > 10000" by simp
  have "(10000::real) < 1 * (2 ^ 54 - 1)" using b by simp
  also have "\<dots> \<le> 2 ^ 970 * (2 ^ 54 - 1)"
    using a b by (intro mult_right_mono) simp_all
  finally show ?thesis unfolding overflowBound_split .
qed

lemma isFinite_small: "\<bar>x\<bar> \<le> 10000 \<Longrightarrow> isFinite x"
  using overflowBound_large by (simp add: isFinite_def)

lemma proximityBands_infinite: "\<not> isFinite d \<Longrightarrow> d > 0 \<Longrightarrow> proximityBands d = 0"
  using overflowBound_large by (simp add: isFinite_def proximityBands_def)

section \<open>Facts about the parsers\<close>

text \<open>An occurrence of \<open>mile\<close> is an occurrence of \<open>mi\<close>.\<close>

lemma startsWith_mile_mi: "startsWith s ''mile'' \<Longrightarrow> startsWith s ''mi''"
  by (cases s; cases "tl s"; cases "tl (tl s)") auto

lemma strIncludes_mile_mi: "strIncludes s ''mile'' \<Longrightarrow> strIncludes s ''mi''"
  by (induction s) (auto dest: startsWith_mile_mi simp del: startsWith.simps)

text \<open>Lower-casing a text does not change the number that \<open>parseFloat\<close> reads from it.\<close>

lemma parseFloat_Nil: "parseFloat [] = None"
  by (simp add: parseFloat_def)

lemma of_char_lowerChar:
  "(of_char (lowerChar c) :: nat) =
     (if 65 \<le> (of_char c :: nat) \<and> (of_char c :: nat) \<le> 90 then of_char c + 32 else of_char c)"
  by (simp add: lowerChar_def)

lemma char_eq_code: "(c = d) = ((of_char c :: nat) = of_char d)"
  by simp

lemma isDigit_lowerChar: "isDigit (lowerChar c) = isDigit c"
  by (auto simp: isDigit_def of_char_lowerChar)

lemma isWhite_lowerChar: "isWhite (lowerChar c) = isWhite c"
  by (auto simp: isWhite_def of_char_lowerChar)

lemma lowerChar_digit: "isDigit c \<Longrightarrow> lowerChar c = c"
  by (auto simp: isDigit_def lowerChar_def)

lemma lowerChar_eq_minus: "(lowerChar c = CHR ''-'') = (c = CHR ''-'')"
  by (auto simp: char_eq_code of_char_lowerChar)

lemma lowerChar_eq_plus: "(lowerChar c = CHR ''+'') = (c = CHR ''+'')"
  by (auto simp: char_eq_code of_char_lowerChar)

lemma lowerChar_eq_dot: "(lowerChar c = CHR ''.'') = (c = CHR ''.'')"
  by (auto simp: char_eq_code of_char_lowerChar)

lemma lowerChar_eq_e: "(lowerChar c = CHR ''e'' \<or> lowerChar c = CHR ''E'') = (c = CHR ''e'' \<or> c = CHR ''E'')"
  by (auto simp: char_eq_code of_char_lowerChar)

lemma takeWhile_digit_lower: "takeWhile isDigit (toLowerCase s) = takeWhile isDigit s"
  by (induction s) (auto simp: toLowerCase_def isDigit_lowerChar lowerChar_digit)

lemma dropWhile_digit_lower: "dropWhile isDigit (toLowerCase s) = toLowerCase (dropWhile isDigit s)"
  by (induction s) (auto simp: toLowerCase_def isDigit_lowerChar)

lemma dropWhile_white_lower: "dropWhile isWhite (toLowerCase s) = toLowerCase (dropWhile isWhite s)"
  by (induction s) (auto simp: toLowerCase_def isWhite_lowerChar)

lemma readSign_lower: "readSign (toLowerCase s) = (fst (readSign s), toLowerCase (snd (readSign s)))"
  by (cases s) (auto simp: toLowerCase_def lowerChar_eq_minus lowerChar_eq_plus)

lemma readExponent_lower: "readExponent (toLowerCase s) = readExponent s"
proof (cases s)
  case Nil
  then show ?thesis by (simp add: toLowerCase_def)
next
  case (Cons c cs)
  have "readExponent (lowerChar c # toLowerCase cs) = readExponent (c # cs)"
    using lowerChar_eq_e[of c]
    by (simp add: readSign_lower takeWhile_digit_lower split_beta Let_def del: readSign.simps)
  then show ?thesis using Cons by (simp add: toLowerCase_def)
qed

lemma mantissa_rest_lower:
  "(case toLowerCase r1 of [] \<Rightarrow> [] | c # cs \<Rightarrow> if c = CHR ''.'' then takeWhile isDigit cs else [])
     = (case r1 of [] \<Rightarrow> [] | c # cs \<Rightarrow> if c = CHR ''.'' then takeWhile isDigit cs else [])"
  using takeWhile_digit_lower[of "tl r1"]
  by (cases r1) (auto simp: toLowerCase_def lowerChar_eq_dot)

lemma exponent_rest_lower:
  "readExponent (case toLowerCase r1 of [] \<Rightarrow> [] | c # cs \<Rightarrow> if c = CHR ''.'' then dropWhile isDigit cs else toLowerCase r1)
     = readExponent (case r1 of [] \<Rightarrow> [] | c # cs \<Rightarrow> if c = CHR ''.'' then dropWhile isDigit cs else r1)"
proof (cases r1)
  case Nil
  then show ?thesis by (simp add: toLowerCase_def)
next
  case (Cons c cs)
  show ?thesis
  proof (cases "c = CHR ''.''")
    case True
    have "readExponent (dropWhile isDigit (toLowerCase cs)) = readExponent (dropWhile isDigit cs)"
      by (simp add: dropWhile_digit_lower readExponent_lower)
    then show ?thesis using Cons True
      by (simp add: toLowerCase_def lowerChar_eq_dot)
  next
    case False
    have "readExponent (toLowerCase (c # cs)) = readExponent (c # cs)"
      by (rule readExponent_lower)
    then show ?thesis using Cons False
      by (simp add: toLowerCase_def lowerChar_eq_dot)
  qed
qed

lemma parseFloat_toLowerCase: "parseFloat (toLowerCase s) = parseFloat s"
proof -
  obtain neg body where rs: "readSign (dropWhile isWhite s) = (neg, body)"
    by (cases "readSign (dropWhile isWhite s)")
  have rs': "readSign (dropWhile isWhite (toLowerCase s)) = (neg, toLowerCase body)"
    by (simp add: dropWhile_white_lower readSign_lower rs)
  show ?thesis
    unfolding parseFloat_def rs rs' Let_def prod.case takeWhile_digit_lower dropWhile_digit_lower
      mantissa_rest_lower exponent_rest_lower
    by (rule refl)
qed

section \<open>Scenario A\<close>

text \<open>
  Claim C1. For the saved list of scenario A, \<open>extractPreferences\<close> gives a profile with
  average rating 4.5 and average distance 500 metres, and \<open>scoreRecommendation\<close> gives
  the candidate of the scenario, under that profile, the score 75.5: without a
  pre-computed distance, and with the one that \<open>fetchRecommendations\<close> passes. The score
  is made of 8 for the cuisine, 20 + 8 + 0.5 for the rating, 15 + 12 + 7 for the distance
  of 600 metres and 5 for the price level.
\<close>

theorem scenarioA_score:
  "avgRating (extractPreferences scenarioA_saved) = 4.5
   \<and> avgDistance (extractPreferences scenarioA_saved) = 500
   \<and> scoreRecommendation scenarioA_candidate (extractPreferences scenarioA_saved) None = 75.5
   \<and> scoreRecommendation scenarioA_candidate (extractPreferences scenarioA_saved)
        (parseDistanceToMeters (distance scenarioA_candidate)) = 75.5
   \<and> parseDistanceToMeters (distance scenarioA_candidate) = Some 600
   \<and> cuisineTerm scenarioA_candidate (extractPreferences scenarioA_saved) = 8
   \<and> ratingTerm scenarioA_candidate (extractPreferences scenarioA_saved) = 20 + 8 + 0.5
   \<and> distanceTerm (Some 600) (extractPreferences scenarioA_saved) = 15 + 12 + 7
   \<and> priceTerm scenarioA_candidate (extractPreferences scenarioA_saved) = 5"
  by code_simp

section \<open>The two distance parsers\<close>

lemma startsWith_mi_m: "startsWith s ''mi'' \<Longrightarrow> startsWith s ''m''"
  by (cases s) auto

lemma strIncludes_mi_m: "strIncludes s ''mi'' \<Longrightarrow> strIncludes s ''m''"
  by (induction s) (auto dest: startsWith_mi_m simp del: startsWith.simps)

lemma parseFloat_Some_truthy: "parseFloat d = Some n \<Longrightarrow> truthy d"
  by (cases d) (auto simp: parseFloat_Nil truthy_def)

text \<open>
  The memo table never changes what the recommendations page's parser returns: on a
  consistent table a call returns what the computation gives, and leaves the table
  consistent.
\<close>

lemma cacheConsistent_empty: "cacheConsistent Map.empty"
  by (simp add: cacheConsistent_def)

lemma memo_result:
  assumes "cacheConsistent cache"
  shows "fst (parseDistanceToMeters_page cache d) = metersOf_page d"
proof (cases "cache d")
  case None
  then show ?thesis
    by (simp add: parseDistanceToMeters_page_def metersOf_page_def Let_def)
next
  case (Some v)
  from assms have "case cache d of None \<Rightarrow> True | Some v \<Rightarrow> truthy d \<and> v = parseDistance_page d"
    unfolding cacheConsistent_def by blast
  with Some have "truthy d" "v = parseDistance_page d" by simp_all
  with Some show ?thesis
    by (simp add: parseDistanceToMeters_page_def metersOf_page_def)
qed

lemma memo_consistent:
  assumes "cacheConsistent cache"
  shows "cacheConsistent (snd (parseDistanceToMeters_page cache d))"
proof (cases "truthy d \<and> cache d = None")
  case True
  then have "snd (parseDistanceToMeters_page cache d) = cache(d \<mapsto> parseDistance_page d)"
    by (simp add: parseDistanceToMeters_page_def Let_def)
  moreover have "cacheConsistent (cache(d \<mapsto> parseDistance_page d))"
    using assms True unfolding cacheConsistent_def by (auto split: option.splits)
  ultimately show ?thesis by simp
next
  case False
  then have "snd (parseDistanceToMeters_page cache d) = cache"
    by (auto simp: parseDistanceToMeters_page_def Let_def split: option.splits)
  with assms show ?thesis by simp
qed

lemma home_parser_miles:
  assumes "parseFloat d = Some n" "strIncludes (toLowerCase d) ''mi''"
  shows "parseDistanceToMeters d = Some (n * 1609.34)"
  using assms parseFloat_Some_truthy[OF assms(1)]
  by (simp add: parseDistanceToMeters_def parseFloat_toLowerCase)

lemma home_parser_no_number:
  assumes "parseFloat d = None"
  shows "parseDistanceToMeters d = None"
  using assms by (simp add: parseDistanceToMeters_def parseFloat_toLowerCase)

lemma page_parser_miles:
  assumes "parseFloat d = Some n" "strIncludes (toLowerCase d) ''mi''"
  shows "metersOf_page d = Some (if strIncludes (toLowerCase d) ''km'' then n * 1000 else n)"
  using assms parseFloat_Some_truthy[OF assms(1)] strIncludes_mi_m[OF assms(2)]
  by (simp add: metersOf_page_def parseDistance_page_def parseFloat_toLowerCase)

lemma page_parser_no_number:
  assumes "parseFloat d = None"
  shows "metersOf_page d = None"
  using assms by (simp add: metersOf_page_def parseDistance_page_def parseFloat_toLowerCase)

text \<open>
  Claim C3, as amended. Let \<open>n\<close> be the number that \<open>parseFloat\<close> reads at the start of
  the input. The home page's parser returns \<open>n \<times> 1609.34\<close> whenever the lower-cased input
  contains \<open>mi\<close> (and so whenever it contains \<open>mile\<close>): miles come before kilometres and
  metres. The recommendations page's parser has no branch for miles: on such an input it
  returns \<open>n \<times> 1000\<close> if the input also contains \<open>km\<close>, and otherwise \<open>n\<close>, reading the
  \<open>m\<close> of \<open>mi\<close> as metres. Both return null when the input has no numeric prefix.
\<close>

theorem distance_parsers_on_miles:
  "(parseFloat d = Some n \<and> strIncludes (toLowerCase d) ''mi''
      \<longrightarrow> parseDistanceToMeters d = Some (n * 1609.34))
   \<and> (parseFloat d = None \<longrightarrow> parseDistanceToMeters d = None)
   \<and> (cacheConsistent cache \<and> parseFloat d = Some n \<and> strIncludes (toLowerCase d) ''mi''
      \<longrightarrow> fst (parseDistanceToMeters_page cache d)
            = Some (if strIncludes (toLowerCase d) ''km'' then n * 1000 else n))
   \<and> (cacheConsistent cache \<and> parseFloat d = None
      \<longrightarrow> fst (parseDistanceToMeters_page cache d) = None)"
  using home_parser_miles home_parser_no_number page_parser_miles page_parser_no_number
  by (simp add: memo_result)

text \<open>The amended claim at the inputs \<open>2 miles away\<close> and \<open>nearby\<close>.\<close>

theorem distance_parsers_on_miles_witness:
  "parseDistanceToMeters ''2 miles away'' = Some (2 * 1609.34)
   \<and> fst (parseDistanceToMeters_page Map.empty ''2 miles away'') = Some 2
   \<and> parseDistanceToMeters ''nearby'' = None
   \<and> fst (parseDistanceToMeters_page Map.empty ''nearby'') = None"
proof -
  have a: "parseFloat ''2 miles away'' = Some 2" by code_simp
  have b: "strIncludes (toLowerCase ''2 miles away'') ''mi''" by code_simp
  have c: "\<not> strIncludes (toLowerCase ''2 miles away'') ''km''" by code_simp
  have e: "parseFloat ''nearby'' = None" by code_simp
  show ?thesis
    using distance_parsers_on_miles[of "''2 miles away''" 2 Map.empty]
      distance_parsers_on_miles[of "''nearby''" 0 Map.empty] a b c e cacheConsistent_empty
    by simp
qed

text \<open>
  The claim as stated fails for the parser of the recommendations page: \<open>2 miles away\<close>
  has the numeric prefix 2 and contains \<open>mile\<close>, and the parser returns 2, not 3218.68.
\<close>

theorem page_parser_reads_miles_as_metres:
  "parseFloat ''2 miles away'' = Some 2
   \<and> strIncludes (toLowerCase ''2 miles away'') ''mile''
   \<and> fst (parseDistanceToMeters_page Map.empty ''2 miles away'') = Some 2
   \<and> fst (parseDistanceToMeters_page Map.empty ''2 miles away'') \<noteq> Some (2 * 1609.34)"
  by code_simp

section \<open>The two scorers\<close>

text \<open>Block by block, the two copies of the scorer compute the same.\<close>

lemma cuisineTerm_page_eq: "cuisineTerm_page r p = cuisineTerm r p"
  by (simp add: cuisineTerm_page_def cuisineTerm_def Let_def)

lemma ratingTerm_page_eq: "ratingTerm_page r p = ratingTerm r p"
  by (simp add: ratingTerm_page_def ratingTerm_def ratingAlignment_def socialProof_def Let_def
      split: option.splits)

lemma distanceTerm_page_eq: "distanceTerm_page m p = distanceTerm m p"
  by (auto simp: distanceTerm_page_def distanceTerm_def distanceAlignment_def proximityBands_def
      Let_def split: option.splits)

lemma priceTerm_page_eq: "priceTerm_page r p = priceTerm r p"
  by (simp add: priceTerm_page_def priceTerm_def Let_def split: option.splits)

lemma spiceTerm_page_eq: "spiceTerm_page r p = spiceTerm r p"
  by (simp add: spiceTerm_page_def spiceTerm_def Let_def)

lemma diversityTerm_page_eq: "diversityTerm_page r p = diversityTerm r p"
  by (simp add: diversityTerm_page_def diversityTerm_def Let_def)

lemma qualityTerm_page_eq: "qualityTerm_page r = qualityTerm r"
  by (simp add: qualityTerm_page_def qualityTerm_def isOpenNow_def split: option.splits)

lemma parsers_agree_without_mi:
  assumes "\<not> strIncludes (toLowerCase d) ''mi''"
  shows "parseDistanceToMeters d = metersOf_page d"
proof -
  from assms have "\<not> strIncludes (toLowerCase d) ''mile''"
    using strIncludes_mile_mi by blast
  with assms show ?thesis
    by (simp add: parseDistanceToMeters_def metersOf_page_def parseDistance_page_def Let_def
        split: option.splits)
qed

lemma scorers_agree_when_parsers_agree:
  assumes "cacheConsistent cache"
    and "parseDistanceToMeters (distance r) = metersOf_page (distance r)"
  shows "fst (scoreRecommendation_page cache r p) = scoreRecommendation r p None"
proof -
  have "fst (parseDistanceToMeters_page cache (distance r)) = parseDistanceToMeters (distance r)"
    using memo_result[OF assms(1)] assms(2) by simp
  then show ?thesis
    by (simp add: scoreRecommendation_page_def scoreRecommendation_def metersFor_def split_beta
        cuisineTerm_page_eq ratingTerm_page_eq distanceTerm_page_eq priceTerm_page_eq
        spiceTerm_page_eq diversityTerm_page_eq qualityTerm_page_eq)
qed

text \<open>
  Claim C10, as amended. For every restaurant whose lower-cased distance text does not
  contain \<open>mi\<close>, and every profile, the scorer of the recommendations page, reading the
  distance through a consistent memo table, returns the score that the home page's scorer
  returns without a pre-computed distance; the table stays consistent.
\<close>

theorem scorers_agree_without_miles:
  assumes "cacheConsistent cache"
    and "\<not> strIncludes (toLowerCase (distance r)) ''mi''"
  shows "fst (scoreRecommendation_page cache r p) = scoreRecommendation r p None
         \<and> cacheConsistent (snd (scoreRecommendation_page cache r p))"
proof
  show "fst (scoreRecommendation_page cache r p) = scoreRecommendation r p None"
    using scorers_agree_when_parsers_agree[OF assms(1) parsers_agree_without_mi[OF assms(2)]] .
  show "cacheConsistent (snd (scoreRecommendation_page cache r p))"
    using memo_consistent[OF assms(1), of "distance r"]
    by (simp add: scoreRecommendation_page_def split_beta)
qed

text \<open>The amended claim at the candidate and the profile of scenario A.\<close>

theorem scorers_agree_without_miles_witness:
  "fst (scoreRecommendation_page Map.empty scenarioA_candidate (extractPreferences scenarioA_saved))
     = scoreRecommendation scenarioA_candidate (extractPreferences scenarioA_saved) None
   \<and> fst (scoreRecommendation_page Map.empty scenarioA_candidate (extractPreferences scenarioA_saved))
     = 75.5"
proof -
  have a: "\<not> strIncludes (toLowerCase (distance scenarioA_candidate)) ''mi''" by code_simp
  have b: "scoreRecommendation scenarioA_candidate (extractPreferences scenarioA_saved) None = 75.5"
    by code_simp
  show ?thesis
    using scorers_agree_without_miles[OF cacheConsistent_empty a, of "extractPreferences scenarioA_saved"] b
    by simp
qed

text \<open>
  The claim as stated fails at a restaurant \<open>2 mi away\<close>, under the empty profile: the
  recommendations page reads 2 metres and adds 10, the home page reads 3218.68 metres and
  adds 1.
\<close>

theorem scorers_differ_on_miles:
  "fst (scoreRecommendation_page Map.empty milesStore (extractPreferences [])) = 10
   \<and> scoreRecommendation milesStore (extractPreferences []) None = 1"
  by code_simp

section \<open>The scorer under the empty profile\<close>

lemma extract_empty:
  "extractPreferences [] =
     \<lparr>favoriteCuisines = Map.empty, avgRating = 0, avgDistance = 0,
      preferredPriceLevels = Map.empty, preferredSpiceLevels = Map.empty, totalSaved = 0\<rparr>"
  by (simp add: extractPreferences_def)

text \<open>
  Claim C4, as amended. Under the profile of the empty saved list, for every candidate:
  the cuisine term, the spice-level term and the diversity bonus are 0; the price-level
  term is 0 for a candidate without a price level and \<open>- 1\<close> for one with a price level
  (the penalty for an unseen price level does not look at \<open>totalSaved\<close>); the rating
  block is 0 for a candidate whose rating is missing or not above zero, and otherwise
  three times the rating plus the social-proof boost; the distance block is 0 for a
  distance that is missing or not above zero, and otherwise the proximity band alone.
  The same holds of the blocks of the recommendations page's scorer.
\<close>

theorem empty_profile_terms:
  "cuisineTerm r (extractPreferences []) = 0
   \<and> spiceTerm r (extractPreferences []) = 0
   \<and> diversityTerm r (extractPreferences []) = 0
   \<and> priceTerm r (extractPreferences []) = (case priceLevel r of None \<Rightarrow> 0 | Some pl \<Rightarrow> - 1)
   \<and> ratingTerm r (extractPreferences []) =
       (case rating r of
          None \<Rightarrow> 0
        | Some x \<Rightarrow> if x > 0 then x * 3 + socialProof r else 0)
   \<and> distanceTerm m (extractPreferences []) =
       (case m of
          None \<Rightarrow> 0
        | Some d \<Rightarrow> if d > 0 then proximityBands d else 0)
   \<and> cuisineTerm_page r (extractPreferences []) = 0
   \<and> spiceTerm_page r (extractPreferences []) = 0
   \<and> priceTerm_page r (extractPreferences []) = (case priceLevel r of None \<Rightarrow> 0 | Some pl \<Rightarrow> - 1)"
proof -
  have d: "distanceTerm m (extractPreferences []) =
       (case m of
          None \<Rightarrow> 0
        | Some d \<Rightarrow> if d > 0 then proximityBands d else 0)"
    using proximityBands_infinite
    by (auto simp: extract_empty distanceTerm_def distanceAlignment_def split: option.splits)
  show ?thesis
    unfolding d
    by (simp add: extract_empty cuisineTerm_def spiceTerm_def diversityTerm_def priceTerm_def
        ratingTerm_def ratingAlignment_def countOf_def
        cuisineTerm_page_eq spiceTerm_page_eq priceTerm_page_eq
        split: option.splits)
qed

text \<open>
  The claim as stated fails at a candidate with price level 2: under the empty profile
  its price-level term is \<open>- 1\<close>, not 0, in both scorers.
\<close>

theorem empty_profile_price_penalty:
  "priceTerm pricedStore (extractPreferences []) = - 1
   \<and> priceTerm_page pricedStore (extractPreferences []) = - 1
   \<and> scoreRecommendation pricedStore (extractPreferences []) None = - 1"
  by code_simp

text \<open>The amended claim at concrete candidates.\<close>

theorem empty_profile_terms_witness:
  "priceTerm pricedStore (extractPreferences []) = - 1
   \<and> ratingTerm scenarioA_candidate (extractPreferences []) = 4.6 * 3 + 0.5
   \<and> distanceTerm (Some 600) (extractPreferences []) = 7"
proof -
  have a: "priceLevel pricedStore = Some 2" by code_simp
  have b: "rating scenarioA_candidate = Some 4.6" by code_simp
  have c: "socialProof scenarioA_candidate = 0.5" by code_simp
  have d: "proximityBands 600 = 7" by code_simp
  show ?thesis
    using empty_profile_terms[of pricedStore "Some 600"]
      empty_profile_terms[of scenarioA_candidate "Some 600"] a b c d
    by simp
qed

section \<open>The cuisine term and the match count\<close>







section \<open>The averages of the profile\<close>

text \<open>What the loop of \<open>extractPreferences\<close> has summed and counted when it ends.\<close>

lemma prefLoopBody_sums:
  "totalRating (prefLoopBody st s) = totalRating st + sum_list (positiveRatings [s])"
  "ratingCountL (prefLoopBody st s) = ratingCountL st + length (positiveRatings [s])"
  "totalDistance (prefLoopBody st s) = totalDistance st + sum_list (finiteDistances [s])"
  "distanceCountL (prefLoopBody st s) = distanceCountL st + length (finiteDistances [s])"
  by (simp_all add: prefLoopBody_def positiveRatings_def definedRatings_def parsedDistances_def
      finiteDistances_def List.map_filter_simps Let_def split: option.splits)

lemma positiveRatings_Cons: "positiveRatings (s # xs) = positiveRatings [s] @ positiveRatings xs"
  by (simp add: positiveRatings_def definedRatings_def List.map_filter_simps split: option.splits)

lemma finiteDistances_Cons: "finiteDistances (s # xs) = finiteDistances [s] @ finiteDistances xs"
  by (simp add: finiteDistances_def parsedDistances_def List.map_filter_simps
      split: option.splits)

lemma prefLoop_sums:
  "totalRating (prefLoop st xs) = totalRating st + sum_list (positiveRatings xs)
   \<and> ratingCountL (prefLoop st xs) = ratingCountL st + length (positiveRatings xs)
   \<and> totalDistance (prefLoop st xs) = totalDistance st + sum_list (finiteDistances xs)
   \<and> distanceCountL (prefLoop st xs) = distanceCountL st + length (finiteDistances xs)"
proof (induction xs arbitrary: st)
  case Nil
  show ?case
    by (simp add: positiveRatings_def definedRatings_def parsedDistances_def finiteDistances_def
        List.map_filter_simps)
next
  case (Cons s xs)
  show ?case
    using Cons.IH[of "prefLoopBody st s"]
    by (simp add: prefLoopBody_sums positiveRatings_Cons[of s xs] finiteDistances_Cons[of s xs])
qed

text \<open>
  Claim C6, as amended. \<open>extractPreferences\<close> of the empty list is the profile whose
  aggregates are all zero and whose maps are all empty. For every saved list, the average
  rating is the mean of the ratings that are present and above zero (zero when there is
  none), the average distance is the mean of the distances that parse to a finite number
  (zero when there is none), each over exactly those entries, and \<open>totalSaved\<close> is the
  length of the list. The entries that count are given one saved place at a time: a place
  adds its rating when it has one above zero, and its distance in metres when the text
  parses and the number is finite. The sums are exact: neither the rounding of doubles nor
  a sum of finite distances that leaves their range is modelled.
\<close>

theorem profile_averages:
  "extractPreferences [] =
     \<lparr>favoriteCuisines = Map.empty, avgRating = 0, avgDistance = 0,
      preferredPriceLevels = Map.empty, preferredSpiceLevels = Map.empty, totalSaved = 0\<rparr>
   \<and> avgRating (extractPreferences saved) = meanOf (positiveRatings saved)
   \<and> avgDistance (extractPreferences saved) = meanOf (finiteDistances saved)
   \<and> totalSaved (extractPreferences saved) = real (length saved)
   \<and> positiveRatings [] = [] \<and> finiteDistances [] = []
   \<and> positiveRatings (s # saved) =
       (case rating s of None \<Rightarrow> [] | Some r \<Rightarrow> if r > 0 then [r] else [])
       @ positiveRatings saved
   \<and> finiteDistances (s # saved) =
       (case parseDistanceToMeters (distance s) of
          None \<Rightarrow> []
        | Some m \<Rightarrow> if \<bar>m\<bar> < overflowBound then [m] else [])
       @ finiteDistances saved"
proof -
  have e: "positiveRatings [] = []" "finiteDistances [] = []"
    by (simp_all add: positiveRatings_def definedRatings_def parsedDistances_def
        finiteDistances_def List.map_filter_simps)
  have s: "totalRating (prefLoop prefLoopInit saved) = sum_list (positiveRatings saved)"
    "ratingCountL (prefLoop prefLoopInit saved) = length (positiveRatings saved)"
    "totalDistance (prefLoop prefLoopInit saved) = sum_list (finiteDistances saved)"
    "distanceCountL (prefLoop prefLoopInit saved) = length (finiteDistances saved)"
    using prefLoop_sums[of prefLoopInit saved] by (simp_all add: prefLoopInit_def)
  have a: "extractPreferences [] =
     \<lparr>favoriteCuisines = Map.empty, avgRating = 0, avgDistance = 0,
      preferredPriceLevels = Map.empty, preferredSpiceLevels = Map.empty, totalSaved = 0\<rparr>
   \<and> avgRating (extractPreferences saved) = meanOf (positiveRatings saved)
   \<and> avgDistance (extractPreferences saved) = meanOf (finiteDistances saved)
   \<and> totalSaved (extractPreferences saved) = real (length saved)"
    by (cases "saved = []") (simp_all add: extractPreferences_def Let_def s e meanOf_def)
  have c: "positiveRatings (s # saved) =
       (case rating s of None \<Rightarrow> [] | Some r \<Rightarrow> if r > 0 then [r] else [])
       @ positiveRatings saved"
    by (simp add: positiveRatings_def definedRatings_def List.map_filter_simps
        split: option.splits)
  have d: "finiteDistances (s # saved) =
       (case parseDistanceToMeters (distance s) of
          None \<Rightarrow> []
        | Some m \<Rightarrow> if \<bar>m\<bar> < overflowBound then [m] else [])
       @ finiteDistances saved"
    by (simp add: finiteDistances_def parsedDistances_def List.map_filter_simps isFinite_def
        split: option.splits)
  show ?thesis using a e c d by blast
qed

text \<open>
  The amended claim at three saved lists: the ratings 0 and 4, the two distances of
  scenario A, and a distance beyond the range of doubles beside one of 1 km.
\<close>

theorem profile_averages_witness:
  "avgRating (extractPreferences zeroRatedSaved) = 4
   \<and> avgDistance (extractPreferences scenarioA_saved) = 500
   \<and> parsedDistances overflowSaved = [10 ^ 312, 1000]
   \<and> finiteDistances overflowSaved = [1000]
   \<and> avgDistance (extractPreferences overflowSaved) = 1000"
proof -
  have a: "meanOf (positiveRatings zeroRatedSaved) = 4" by code_simp
  have b: "meanOf (finiteDistances scenarioA_saved) = 500" by code_simp
  have p: "parsedDistances overflowSaved = [10 ^ 312, 1000]" by code_simp
  have f: "finiteDistances overflowSaved = [1000]"
    unfolding finiteDistances_def p by code_simp
  have c: "meanOf (finiteDistances overflowSaved) = 1000"
    unfolding f by (simp add: meanOf_def)
  show ?thesis
    using profile_averages[of zeroRatedSaved] profile_averages[of scenarioA_saved]
      profile_averages[of overflowSaved] a b c p f by simp
qed

text \<open>
  The claim as stated fails at a saved list with the ratings 0 and 4: both are defined
  and finite and their mean is 2, but the profile's average rating is 4, the entry rated
  0 being left out of the sum and of the denominator.
\<close>

theorem zero_rating_left_out_of_average:
  "definedRatings zeroRatedSaved = [0, 4]
   \<and> meanOf (definedRatings zeroRatedSaved) = 2
   \<and> avgRating (extractPreferences zeroRatedSaved) = 4"
  by code_simp

section \<open>The order of the ranked list\<close>































section \<open>Freshness of the rows served from the cache\<close>

text \<open>A row that the query returns was updated within the last 30 days.\<close>

lemma query_row_updated:
  assumes "p \<in> set (cachedPlacesQuery w qlat qlon radius)"
  shows "updatedWithin30Days (now w) p \<and> cover_image_base64 p \<noteq> None
         \<and> inSearchBox qlat qlon radius p \<and> source p = ''google'' \<and> p \<in> set (places w)"
  using assms by (auto simp: cachedPlacesQuery_def dest: in_set_takeD)

lemma placesFromCache_subset:
  "set (placesFromCache w qlat qlon radius) \<subseteq> set (cachedPlacesQuery w qlat qlon radius)"
  by (auto simp: placesFromCache_def Let_def)

lemma expired_not_updated:
  assumes "expiryAsWritten p" "expiredAt t p"
  shows "\<not> updatedWithin30Days t p"
  using assms
  by (auto simp: expiryAsWritten_def expiredAt_def updatedWithin30Days_def ttlMs_def
      split: option.splits)

text \<open>Every write of \<open>getOrCachePlacePhotos\<close> stamps the row as described.\<close>

lemma stamps_append:
  "stampsAsWritten w (xs @ ys) = (stampsAsWritten w xs \<and> stampsAsWritten w ys)"
  by (simp add: stampsAsWritten_def)

lemma stamps_Cons:
  "stampsAsWritten w (e # es) = (stampsAsWritten w [e] \<and> stampsAsWritten w es)"
  by (simp add: stampsAsWritten_def)

lemma stamps_fetchWithRetries:
  "stampsAsWritten w evs \<Longrightarrow> stampsAsWritten w (snd (fetchWithRetries w r n evs))"
proof (induction n arbitrary: evs)
  case 0
  then show ?case by simp
next
  case (Suc n)
  have "stampsAsWritten w (evs @ [PhotoCall r, Delay 100])"
    using Suc.prems by (simp add: stampsAsWritten_def)
  from Suc.IH[OF this] Suc.prems show ?case
    by (auto simp: stampsAsWritten_def split: option.splits)
qed

lemma stamps_photoLoop:
  "stampsAsWritten w evs \<Longrightarrow> stampsAsWritten w (snd (photoLoop w ps es evs))"
proof (induction ps arbitrary: es evs)
  case Nil
  then show ?case by simp
next
  case (Cons p ps)
  obtain res evs' where f: "fetchWithRetries w (photo_reference p) 2 evs = (res, evs')"
    by (cases "fetchWithRetries w (photo_reference p) 2 evs")
  have "stampsAsWritten w evs'"
    using stamps_fetchWithRetries[OF Cons.prems, of "photo_reference p" 2] f by simp
  then show ?case
    using Cons.IH Cons.prems f by (cases res) (auto simp del: fetchWithRetries.simps)
qed

lemma stamps_photoUpserts: "stampsAsWritten w (photoUpserts pid i es)"
  by (induction es arbitrary: i) (simp_all add: stampsAsWritten_def)

lemma stamps_upsert: "stampsAsWritten w [DbUpsertPlace (upsertFields w params d es)]"
  by (simp add: stampsAsWritten_def upsertFields_def)

lemma stamps_detailsStage:
  "stampsAsWritten w evs \<Longrightarrow> stampsAsWritten w (snd (snd (detailsStage w params evs)))"
  by (auto simp: detailsStage_def Let_def stampsAsWritten_def split: DetailsResponse.splits option.splits)

lemma stamps_fetchAndStore:
  assumes "stampsAsWritten w evs"
  shows "stampsAsWritten w (snd (fetchAndStore w params fb d refs evs))"
proof -
  obtain es evs' where l: "photoLoop w (take (min 4 (length refs)) refs) [] evs = (es, evs')"
    by (cases "photoLoop w (take (min 4 (length refs)) refs) [] evs")
  have "stampsAsWritten w evs'"
    using stamps_photoLoop[OF assms, of "take (min 4 (length refs)) refs" "[]"] l by simp
  then show ?thesis
    using l stamps_photoUpserts[of w] stamps_upsert[of w params d es]
    by (auto simp: fetchAndStore_def Let_def stamps_append stamps_Cons[of w _ "photoUpserts _ _ _"]
        split: option.splits)
qed

lemma stamps_photoStage:
  assumes "stampsAsWritten w evs"
  shows "stampsAsWritten w (snd (photoStage w params fb existing d refs evs))"
proof -
  have u: "stampsAsWritten w [DbUpsertPlace (upsertFields w params d [])]"
    by (rule stamps_upsert)
  have f: "stampsAsWritten w (snd (fetchAndStore w params fb d refs evs))"
    by (rule stamps_fetchAndStore[OF assms])
  have up: "\<And>i m. stampsAsWritten w
      [DbUpdatePlace i \<lparr>upd_details = m, upd_last_updated_at = now w, upd_expires_at = now w + ttlMs\<rparr>]"
    by (simp add: stampsAsWritten_def)
  show ?thesis
  proof (cases existing)
    case None
    then show ?thesis using assms u f by (simp add: photoStage_def stamps_append)
  next
    case (Some ex)
    then show ?thesis using assms u f up
      by (simp add: photoStage_def Let_def stamps_append)
  qed
qed

lemma stamps_afterCacheMiss:
  assumes "stampsAsWritten w evs"
  shows "stampsAsWritten w (snd (afterCacheMiss w params fb existing evs))"
proof (cases "hasCompleteCache w existing")
  case True
  then show ?thesis
    using stamps_photoStage[OF assms] by (simp add: afterCacheMiss_def)
next
  case False
  obtain d ph evs1 where st: "detailsStage w params evs = (d, ph, evs1)"
    by (cases "detailsStage w params evs")
  have "stampsAsWritten w evs1"
    using stamps_detailsStage[OF assms, of params] st by simp
  from stamps_photoStage[OF this] show ?thesis
    using False st by (simp add: afterCacheMiss_def)
qed

lemma stamps_getOrCachePlacePhotos:
  "stampsAsWritten w (snd (getOrCachePlacePhotos w params))"
proof -
  have i: "stampsAsWritten w [DbSelectPlace (placeId params)]"
    by (simp add: stampsAsWritten_def)
  show ?thesis
  proof (cases "optTruthy (apiKey w)")
    case False
    then show ?thesis
      by (simp add: getOrCachePlacePhotos_def Let_def stampsAsWritten_def)
  next
    case True
    show ?thesis
    proof (cases "selectExisting w (placeId params)")
      case None
      with True show ?thesis
        using stamps_afterCacheMiss[OF i] by (simp add: getOrCachePlacePhotos_def Let_def)
    next
      case (Some ex)
      with True show ?thesis
        using stamps_afterCacheMiss[OF i] i by (simp add: getOrCachePlacePhotos_def Let_def)
    qed
  qed
qed

text \<open>
  So every row of a table that the handler has produced has its expiry at least 30 days
  after its last update.
\<close>

lemma applyWrite_keeps:
  assumes inv: "\<forall>p\<in>set tbl. expiryAsWritten p"
    and st: "case writeStamps e of None \<Rightarrow> True | Some s \<Rightarrow> s = (Some t, Some (t + ttlMs))"
  shows "\<forall>p\<in>set (applyWrite e newId tbl). expiryAsWritten p"
proof (cases e)
  case (DbUpsertPlace f)
  have r: "expiryAsWritten (rowOf f i)" for i
    using st DbUpsertPlace by (simp add: expiryAsWritten_def rowOf_def)
  have o: "expiryAsWritten (overwritten f x)" for x
    using st DbUpsertPlace by (simp add: expiryAsWritten_def overwritten_def rowOf_def)
  show ?thesis using inv r o DbUpsertPlace by auto
next
  case (DbUpdatePlace i u)
  then show ?thesis using inv st by (auto simp: expiryAsWritten_def)
qed (use inv in simp_all)

lemma produced_expiry:
  "producedTable tbl \<Longrightarrow> \<forall>p\<in>set tbl. expiryAsWritten p"
proof (induction rule: producedTable.induct)
  case empty
  show ?case by simp
next
  case (written tbl w e params newId)
  have "stampsAsWritten w (snd (getOrCachePlacePhotos w params))"
    by (rule stamps_getOrCachePlacePhotos)
  then have "case writeStamps e of None \<Rightarrow> True
             | Some s \<Rightarrow> s = (Some (now w), Some (now w + ttlMs))"
    using written.hyps(3) by (simp add: stampsAsWritten_def list_all_iff)
  then show ?case
    using applyWrite_keeps[OF written.IH, where e = e and t = "now w" and newId = newId]
    by blast
qed

text \<open>
  Claim C7. On every table that the writes of the handler have produced, a row whose
  expiry does not lie after the time of the query is not returned by the cache query of
  the search, and is not served from the cache, wherever its coordinate lies and whatever
  its other columns are. The query itself never reads the expiry: it keeps the rows
  updated within the last 30 days. The two agree because every write of
  \<open>getOrCachePlacePhotos\<close> sets the last update to the time of the run and the expiry 30
  days later, so that every row of a produced table has its expiry at least 30 days after
  its last update, and a row in that relation, once expired, was not updated within the
  last 30 days.
\<close>

theorem expired_rows_not_served:
  "(producedTable (places w) \<and> expiredAt (now w) p \<longrightarrow>
      p \<notin> set (cachedPlacesQuery w qlat qlon radius)
      \<and> p \<notin> set (placesFromCache w qlat qlon radius))
   \<and> (producedTable tbl \<longrightarrow> list_all expiryAsWritten tbl)
   \<and> (expiryAsWritten p \<and> expiredAt (now w) p \<longrightarrow>
      p \<notin> set (cachedPlacesQuery w qlat qlon radius)
      \<and> p \<notin> set (placesFromCache w qlat qlon radius))
   \<and> stampsAsWritten w (snd (getOrCachePlacePhotos w params))"
proof -
  have g: "expiryAsWritten p \<and> expiredAt (now w) p \<longrightarrow>
      p \<notin> set (cachedPlacesQuery w qlat qlon radius)
      \<and> p \<notin> set (placesFromCache w qlat qlon radius)"
    using expired_not_updated[of p "now w"] query_row_updated[of p w qlat qlon radius]
      placesFromCache_subset[of w qlat qlon radius]
    by blast
  have i: "producedTable tbl \<longrightarrow> list_all expiryAsWritten tbl"
    using produced_expiry[of tbl] by (simp add: list_all_iff)
  have q: "producedTable (places w) \<and> expiredAt (now w) p \<longrightarrow>
      p \<notin> set (cachedPlacesQuery w qlat qlon radius)
      \<and> p \<notin> set (placesFromCache w qlat qlon radius)"
  proof (cases "p \<in> set (places w)")
    case True
    then show ?thesis using produced_expiry[of "places w"] g by blast
  next
    case False
    then show ?thesis
      using query_row_updated[of p w qlat qlon radius]
        placesFromCache_subset[of w qlat qlon radius]
      by blast
  qed
  show ?thesis
    using g i q stamps_getOrCachePlacePhotos[of w params] by blast
qed

text \<open>
  The claim at the table that one run of the function on an empty table leaves: its row
  lies inside the search box around (0, 0) and has a cover; the query returns it a second
  after it was written, and no longer 31 days after.
\<close>

theorem expired_rows_not_served_witness:
  "producedTable flakyTable \<and> places laterWorld = flakyTable \<and> length flakyTable = 1
   \<and> expiredAt (now laterWorld) (hd flakyTable)
   \<and> cachedPlacesQuery (laterWorld\<lparr>now := 2000\<rparr>) 0 0 1000 = flakyTable
   \<and> hd flakyTable \<notin> set (cachedPlacesQuery laterWorld 0 0 1000)
   \<and> hd flakyTable \<notin> set (placesFromCache laterWorld 0 0 1000)
   \<and> expiryAsWritten oldRow \<and> expiredAt (now (worldWith [oldRow])) oldRow
   \<and> oldRow \<notin> set (cachedPlacesQuery (worldWith [oldRow]) 0 0 1000)"
proof -
  let ?f = "upsertFields flakyWorld sushiPlace emptyDetails
              (fst (photoLoop flakyWorld (take 4 (photoRefsOf (photos sushiPlace))) []
                     [DbSelectPlace ''p1'', DetailsCall ''p1'']))"
  have m: "DbUpsertPlace ?f \<in> set (snd (getOrCachePlacePhotos flakyWorld sushiPlace))"
    by code_simp
  have e: "places flakyWorld = []" by (simp add: flakyWorld_def)
  have pt: "producedTable flakyTable"
    unfolding flakyTable_def
    using producedTable.written[OF producedTable.empty e m, of "''7''"] .
  have pl: "places laterWorld = flakyTable" by (simp add: laterWorld_def)
  have t: "flakyTable =
    [\<lparr>source = ''google'', source_place_id = ''p1'', place_name = ''Sakura'',
      formatted_address = None, lat = 0, lon = 0,
      primary_type = Some ''restaurant'',
      type_tags = Some ''restaurant,Sushi_bar'', place_rating = None,
      rating_count = None, price_level = None,
      google_photo_reference = Some ''a'',
      cover_image_base64 = Some ''data:a'',
      photo_gallery =
        Some
         [\<lparr>entry_id = ''a'', image_base64 = ''data:a'', attribution = None,
             entry_width = None, entry_height = None\<rparr>,
          \<lparr>entry_id = ''flaky'', image_base64 = ''data:flaky'',
             attribution = None, entry_width = None, entry_height = None\<rparr>,
          \<lparr>entry_id = ''c'', image_base64 = ''data:c'', attribution = None,
             entry_width = None, entry_height = None\<rparr>],
      has_photos = True,
      row_details =
        \<lparr>description = None, phone = None, website = None,
           internationalPhone = None, hours = None, reviews = None,
           businessStatus = None\<rparr>,
      last_updated_at = Some 1000, expires_at = Some 2592001000,
      row_id = ''7''\<rparr>]"
    by code_simp
  have n: "now laterWorld = 2678401000" by (simp add: laterWorld_def)
  have x: "expiredAt (now laterWorld) (hd flakyTable)"
    unfolding n t by (simp add: expiredAt_def)
  have l: "length flakyTable = 1" unfolding t by simp
  have q: "cachedPlacesQuery (laterWorld\<lparr>now := 2000\<rparr>) 0 0 1000 = flakyTable"
    unfolding cachedPlacesQuery_def
    by (simp add: pl, simp add: t inSearchBox_def updatedWithin30Days_def)
  have a: "expiryAsWritten oldRow"
    by (simp add: expiryAsWritten_def oldRow_def rowAt_def)
  have b: "expiredAt (now (worldWith [oldRow])) oldRow"
    by (simp add: expiredAt_def oldRow_def rowAt_def worldWith_def ttlMs_def)
  have pt': "producedTable (places laterWorld)" using pt pl by simp
  show ?thesis
    using expired_rows_not_served[of laterWorld "hd flakyTable" 0 0 1000 flakyTable]
      expired_rows_not_served[of "worldWith [oldRow]" oldRow 0 0 1000]
      pt pt' pl x l q a b
    by blast
qed

section \<open>Enrichment without the credential\<close>

text \<open>The function's fallback image is the one that the lookup by keyword gives.\<close>

lemma firstMatch_stockImages:
  "firstMatch stockImages j =
     (if strIncludes j ''mexican''
      then ''https://images.unsplash.com/photo-1617196034796-73dfa7b1fd56?auto=format&fit=crop&w=900&q=80''
      else if strIncludes j ''sushi'' \<or> strIncludes j ''japanese''
      then ''https://images.unsplash.com/photo-1546069901-ba9599a7e63c?auto=format&fit=crop&w=900&q=80''
      else if strIncludes j ''chinese''
      then ''https://images.unsplash.com/photo-1513104890138-7c749659a591?auto=format&fit=crop&w=900&q=80''
      else if strIncludes j ''indian''
      then ''https://images.unsplash.com/photo-1565557623262-b51c2513a641?auto=format&fit=crop&w=900&q=80''
      else if strIncludes j ''pizza'' \<or> strIncludes j ''italian''
      then ''https://images.unsplash.com/photo-1513104890138-7c749659a591?auto=format&fit=crop&w=900&q=80''
      else if strIncludes j ''burger''
      then ''https://images.unsplash.com/photo-1550547660-d9450f859349?auto=format&fit=crop&w=900&q=80''
      else ''https://images.unsplash.com/photo-1521017432531-fbd92d768814?auto=format&fit=crop&w=900&q=80'')"
  by (simp add: stockImages_def defaultImage_def)

lemma fallback_keywordImage: "getCuisineFallbackImageFromTypes ts = keywordImage ts"
  unfolding getCuisineFallbackImageFromTypes_def keywordImage_def Let_def firstMatch_stockImages
  by (rule refl)

lemma no_key_no_enrichment:
  "\<not> optTruthy (apiKey w) \<Longrightarrow> GET_guard w latParam lonParam \<noteq> Proceed"
  by (simp add: GET_guard_def split: option.splits)

text \<open>
  Claim C8. When the environment has no provider key (the variable is unset or empty),
  \<open>getOrCachePlacePhotos\<close> returns, for every place, the fallback image as cover, an empty
  gallery and no detail, and the run has no event at all: no request to the provider, and
  no access to the table either. The fallback image is the one that the lookup by cuisine
  keyword gives for the category tags of the place: the stock image of the first entry of
  the table with a keyword that occurs in the tags, and the default image when there is
  none. The route handler itself then enriches no place: it answers before it searches.
\<close>

theorem missing_key_short_circuit:
  "(\<not> optTruthy (apiKey w) \<longrightarrow>
      getOrCachePlacePhotos w params =
        (\<lparr>cover = keywordImage (types params), gallery = [], details = emptyDetails\<rparr>, [])
      \<and> filter isUpstreamCall (snd (getOrCachePlacePhotos w params)) = []
      \<and> GET_guard w latParam lonParam \<noteq> Proceed)
   \<and> getCuisineFallbackImageFromTypes tags = keywordImage tags"
  using no_key_no_enrichment[of w latParam lonParam]
  by (simp add: getOrCachePlacePhotos_def Let_def fallback_keywordImage)

text \<open>
  The claim at a sushi bar, a Mexican restaurant and a place without tags, with the
  variable unset and with the variable empty: three places, three images.
\<close>

theorem missing_key_short_circuit_witness:
  "getOrCachePlacePhotos (flakyWorld\<lparr>apiKey := None\<rparr>) sushiPlace =
     (\<lparr>cover = ''https://images.unsplash.com/photo-1546069901-ba9599a7e63c?auto=format&fit=crop&w=900&q=80'',
       gallery = [], details = emptyDetails\<rparr>, [])
   \<and> getOrCachePlacePhotos (flakyWorld\<lparr>apiKey := Some []\<rparr>) sushiPlace =
     (\<lparr>cover = ''https://images.unsplash.com/photo-1546069901-ba9599a7e63c?auto=format&fit=crop&w=900&q=80'',
       gallery = [], details = emptyDetails\<rparr>, [])
   \<and> getOrCachePlacePhotos (flakyWorld\<lparr>apiKey := None\<rparr>) taqueria =
     (\<lparr>cover = ''https://images.unsplash.com/photo-1617196034796-73dfa7b1fd56?auto=format&fit=crop&w=900&q=80'',
       gallery = [], details = emptyDetails\<rparr>, [])
   \<and> getOrCachePlacePhotos (flakyWorld\<lparr>apiKey := None\<rparr>) untagged =
     (\<lparr>cover = ''https://images.unsplash.com/photo-1521017432531-fbd92d768814?auto=format&fit=crop&w=900&q=80'',
       gallery = [], details = emptyDetails\<rparr>, [])
   \<and> GET_guard (flakyWorld\<lparr>apiKey := None\<rparr>) (Some ''37.77'') (Some ''-122.42'') = NotConfigured
   \<and> GET_guard flakyWorld (Some ''37.77'') (Some ''-122.42'') = Proceed"
proof -
  have a: "\<not> optTruthy (apiKey (flakyWorld\<lparr>apiKey := None\<rparr>))" by (simp add: optTruthy_def)
  have b: "\<not> optTruthy (apiKey (flakyWorld\<lparr>apiKey := Some []\<rparr>))"
    by (simp add: optTruthy_def truthy_def)
  have c: "keywordImage (types sushiPlace) =
    ''https://images.unsplash.com/photo-1546069901-ba9599a7e63c?auto=format&fit=crop&w=900&q=80''"
    by code_simp
  have d: "keywordImage (types taqueria) =
    ''https://images.unsplash.com/photo-1617196034796-73dfa7b1fd56?auto=format&fit=crop&w=900&q=80''"
    by code_simp
  have e: "keywordImage (types untagged) =
    ''https://images.unsplash.com/photo-1521017432531-fbd92d768814?auto=format&fit=crop&w=900&q=80''"
    by code_simp
  have g: "GET_guard (flakyWorld\<lparr>apiKey := None\<rparr>) (Some ''37.77'') (Some ''-122.42'')
             = NotConfigured"
    by code_simp
  have h: "GET_guard flakyWorld (Some ''37.77'') (Some ''-122.42'') = Proceed"
    by code_simp
  show ?thesis
    using missing_key_short_circuit[of "flakyWorld\<lparr>apiKey := None\<rparr>" sushiPlace]
      missing_key_short_circuit[of "flakyWorld\<lparr>apiKey := Some []\<rparr>" sushiPlace]
      missing_key_short_circuit[of "flakyWorld\<lparr>apiKey := None\<rparr>" taqueria]
      missing_key_short_circuit[of "flakyWorld\<lparr>apiKey := None\<rparr>" untagged] a b g h
    unfolding c d e by blast
qed

section \<open>Photo requests, retries and partial galleries\<close>

text \<open>
  What the two rounds of the retry loop amount to, and how many requests the loop over
  the photos makes.
\<close>

lemma fetchWithRetries_two:
  "fetchWithRetries w r 2 evs =
     (case photoResponse w (photoCalls evs) r of
        Some dataUrl \<Rightarrow> (Some dataUrl, evs @ [PhotoCall r])
      | None \<Rightarrow>
          (photoResponse w (photoCalls evs + 1) r,
           evs @ [PhotoCall r, Delay 100, PhotoCall r]))"
  by (simp add: numeral_2_eq_2 photoCalls_def split: option.splits)

lemma photoCalls_fetchWithRetries:
  "photoCalls (snd (fetchWithRetries w r 2 evs)) \<le> photoCalls evs + 2"
  unfolding fetchWithRetries_two by (simp add: photoCalls_def split: option.splits)

lemma photoCalls_photoLoop:
  "photoCalls (snd (photoLoop w refs es evs)) \<le> photoCalls evs + 2 * length refs"
proof (induction refs arbitrary: es evs)
  case Nil
  then show ?case by simp
next
  case (Cons p ps)
  obtain res evs' where f: "fetchWithRetries w (photo_reference p) 2 evs = (res, evs')"
    by (cases "fetchWithRetries w (photo_reference p) 2 evs")
  have b: "photoCalls evs' \<le> photoCalls evs + 2"
    using photoCalls_fetchWithRetries[of w "photo_reference p" evs] f by simp
  show ?case
  proof (cases "truthy (photo_reference p)")
    case False
    then show ?thesis using Cons.IH[of es evs] by simp
  next
    case True
    show ?thesis
    proof (cases res)
      case None
      then show ?thesis using True f b Cons.IH[of es evs']
        by (simp del: fetchWithRetries.simps)
    next
      case (Some u)
      then show ?thesis using True f b Cons.IH[of "es @ [entryOf p u]" evs']
        by (simp del: fetchWithRetries.simps)
    qed
  qed
qed

text \<open>
  The loop collects an entry for each photo that one of its two requests gives, in the
  order of the references, whatever the other photos do.
\<close>

lemma photoLoop_collected:
  assumes "list_all (\<lambda>p. truthy (photo_reference p)) refs"
  shows "fst (photoLoop w refs es evs) = es @ collected w (photoCalls evs) refs"
  using assms
proof (induction refs arbitrary: es evs)
  case Nil
  then show ?case by simp
next
  case (Cons p ps)
  from Cons.prems have t: "truthy (photo_reference p)"
    and ps: "list_all (\<lambda>p. truthy (photo_reference p)) ps"
    by simp_all
  let ?r = "photo_reference p"
  have c1: "photoCalls (evs @ [PhotoCall ?r]) = photoCalls evs + 1"
    by (simp add: photoCalls_def)
  have c2: "photoCalls (evs @ [PhotoCall ?r, Delay 100, PhotoCall ?r]) = photoCalls evs + 2"
    by (simp add: photoCalls_def)
  show ?case
  proof (cases "photoResponse w (photoCalls evs) ?r")
    case (Some u)
    then have f: "fetchWithRetries w ?r 2 evs = (Some u, evs @ [PhotoCall ?r])"
      unfolding fetchWithRetries_two by simp
    show ?thesis
      using t Some Cons.IH[OF ps, of "es @ [entryOf p u]" "evs @ [PhotoCall ?r]"]
      unfolding photoLoop.simps f c1 by simp
  next
    case None
    then have f: "fetchWithRetries w ?r 2 evs =
        (photoResponse w (photoCalls evs + 1) ?r, evs @ [PhotoCall ?r, Delay 100, PhotoCall ?r])"
      unfolding fetchWithRetries_two by simp
    show ?thesis
    proof (cases "photoResponse w (photoCalls evs + 1) ?r")
      case None2: None
      show ?thesis
        using t None None2
          Cons.IH[OF ps, of es "evs @ [PhotoCall ?r, Delay 100, PhotoCall ?r]"]
        unfolding photoLoop.simps f c2 by simp
    next
      case (Some u)
      show ?thesis
        using t None Some
          Cons.IH[OF ps, of "es @ [entryOf p u]" "evs @ [PhotoCall ?r, Delay 100, PhotoCall ?r]"]
        unfolding photoLoop.simps f c2 by simp
    qed
  qed
qed

lemma collected_subseq:
  "subseq (map entry_id (collected w n refs)) (map photo_reference refs)"
  by (induction refs arbitrary: n) (auto simp: entryOf_def split: option.splits)

lemma collected_always:
  assumes "p \<in> set refs" "alwaysAnswered w (photo_reference p)"
  shows "photo_reference p \<in> set (map entry_id (collected w n refs))"
  using assms
proof (induction refs arbitrary: n)
  case Nil
  then show ?case by simp
next
  case (Cons q qs)
  show ?case
  proof (cases "p = q")
    case True
    obtain u where "photoResponse w n (photo_reference q) = Some u"
      using Cons.prems(2) True unfolding alwaysAnswered_def by auto
    then show ?thesis using True by (simp add: entryOf_def)
  next
    case False
    then have "p \<in> set qs" using Cons.prems(1) by simp
    then have "\<And>m. photo_reference p \<in> set (map entry_id (collected w m qs))"
      using Cons.IH Cons.prems(2) by blast
    then show ?thesis by (auto split: option.splits)
  qed
qed

lemma collected_never:
  assumes "neverAnswered w r"
  shows "r \<notin> set (map entry_id (collected w n refs))"
proof (induction refs arbitrary: n)
  case Nil
  then show ?case by simp
next
  case (Cons q qs)
  have "photo_reference q = r \<Longrightarrow> photoResponse w m (photo_reference q) = None" for m
    using assms unfolding neverAnswered_def by simp
  then show ?case
    using Cons.IH by (auto simp: entryOf_def split: option.splits)
qed

lemma photoRefsOf_truthy: "list_all (\<lambda>p. truthy (photo_reference p)) (photoRefsOf ps)"
  by (cases ps) (simp_all add: photoRefsOf_def list_all_iff)

lemma list_all_take: "list_all P xs \<Longrightarrow> list_all P (take n xs)"
  by (auto simp: list_all_iff dest: in_set_takeD)

lemma fetchAndStore_collected:
  "fst (fetchAndStore w params fb d (photoRefsOf ps) evs) =
           resultFrom fb d (collected w (photoCalls evs) (take 4 (photoRefsOf ps)))"
proof -
  have tk: "take (min 4 (length (photoRefsOf ps))) (photoRefsOf ps) = take 4 (photoRefsOf ps)"
    by (simp add: min_def)
  obtain es evs' where l: "photoLoop w (take 4 (photoRefsOf ps)) [] evs = (es, evs')"
    by (cases "photoLoop w (take 4 (photoRefsOf ps)) [] evs")
  have e: "collected w (photoCalls evs) (take 4 (photoRefsOf ps)) = es"
    using photoLoop_collected[OF list_all_take[OF photoRefsOf_truthy], of w 4 ps "[]" evs] l
    by simp
  show ?thesis
    unfolding fetchAndStore_def tk Let_def l e prod.case resultFrom_def
    by (cases es) (simp_all split: option.splits)
qed

text \<open>The same for the function as a whole, once the stored row does not answer the call.\<close>

lemma photoStage_collected:
  assumes "\<not> hasCachedPhotos w existing"
  shows "fst (photoStage w params fb existing d (photoRefsOf ps) evs) =
           resultFrom fb d (collected w (photoCalls evs) (take 4 (photoRefsOf ps)))"
proof (cases "photoRefsOf ps = []")
  case True
  then show ?thesis
    using assms
    by (cases existing) (simp_all add: photoStage_def resultFrom_def)
next
  case False
  then show ?thesis
    using assms fetchAndStore_collected[of w params fb d ps evs]
    by (cases existing) (simp_all add: photoStage_def)
qed

lemma cacheMiss_no_cached_photos:
  "cacheMiss w params \<Longrightarrow> \<not> hasCachedPhotos w (selectExisting w (placeId params))"
  by (auto simp: cacheMiss_def hasCachedPhotos_def split: option.splits)

lemma photoCalls_detailsStage:
  "photoCalls (snd (snd (detailsStage w params evs))) = photoCalls evs"
  by (simp add: detailsStage_def Let_def photoCalls_def
      split: DetailsResponse.splits option.splits)

lemma getOrCache_collected:
  assumes key: "optTruthy (apiKey w)" and miss: "cacheMiss w params"
  shows "fst (getOrCachePlacePhotos w params) =
           resultFrom (getCuisineFallbackImageFromTypes (types params))
             (fst (detailsAndRefs w params))
             (collected w 0 (take 4 (snd (detailsAndRefs w params))))"
proof -
  let ?ex = "selectExisting w (placeId params)"
  let ?fb = "getCuisineFallbackImageFromTypes (types params)"
  let ?evs = "[DbSelectPlace (placeId params)]"
  obtain d ph evs1 where st:
    "(if \<not> hasCompleteCache w ?ex then detailsStage w params ?evs
      else (emptyDetails, photos params, ?evs)) = (d, ph, evs1)"
    by (metis prod_cases3)
  have z: "photoCalls evs1 = 0"
  proof (cases "hasCompleteCache w ?ex")
    case True
    then show ?thesis using st by (auto simp: photoCalls_def)
  next
    case False
    then have "evs1 = snd (snd (detailsStage w params ?evs))" using st by simp
    then show ?thesis
      using photoCalls_detailsStage[of w params ?evs] by (simp add: photoCalls_def)
  qed
  have dr: "detailsAndRefs w params = (d, photoRefsOf ph)"
    unfolding detailsAndRefs_def st by simp
  have acm: "fst (afterCacheMiss w params ?fb ?ex ?evs) =
               resultFrom ?fb d (collected w 0 (take 4 (photoRefsOf ph)))"
    unfolding afterCacheMiss_def st Let_def prod.case
    using photoStage_collected[OF cacheMiss_no_cached_photos[OF miss], of params ?fb d ph evs1]
    unfolding z .
  have "getOrCachePlacePhotos w params = afterCacheMiss w params ?fb ?ex ?evs"
    using key miss
    by (auto simp: getOrCachePlacePhotos_def cacheMiss_def Let_def split: option.splits)
  then show ?thesis using acm dr by simp
qed

text \<open>
  Claim C9, as amended. Each photo is requested at most twice, the first request and one
  retry: when the first request succeeds there is no other, and when it fails the
  function waits 100 ms and requests the photo once more, whose outcome is the photo's
  outcome. The loop over the photo references makes at most two requests per reference.
  A photo whose two requests fail is dropped and the loop goes on: the entries collected
  are those of the photos that one of their two requests gave, in the order of the
  references; the photo of a reference that the provider always answers is among them
  whatever happens to the others, and that of a reference it never answers is not. And
  whenever the key is present and the stored row does not answer the call, the function
  returns a place record made from those entries for the first four references: the
  first entry as cover and the next three as gallery, or the fallback image and an empty
  gallery when no photo could be fetched.
\<close>

theorem photo_retries_and_partial_gallery:
  "fetchWithRetries w r 2 evs =
     (case photoResponse w (photoCalls evs) r of
        Some dataUrl \<Rightarrow> (Some dataUrl, evs @ [PhotoCall r])
      | None \<Rightarrow>
          (photoResponse w (photoCalls evs + 1) r,
           evs @ [PhotoCall r, Delay 100, PhotoCall r]))
   \<and> photoCalls (snd (photoLoop w refs es evs)) \<le> photoCalls evs + 2 * length refs
   \<and> (list_all (\<lambda>p. truthy (photo_reference p)) refs \<longrightarrow>
        fst (photoLoop w refs es evs) = es @ collected w (photoCalls evs) refs)
   \<and> subseq (map entry_id (collected w n refs)) (map photo_reference refs)
   \<and> (p \<in> set refs \<and> alwaysAnswered w (photo_reference p) \<longrightarrow>
        photo_reference p \<in> set (map entry_id (collected w n refs)))
   \<and> (neverAnswered w r \<longrightarrow> r \<notin> set (map entry_id (collected w n refs)))
   \<and> (optTruthy (apiKey w) \<and> cacheMiss w params \<longrightarrow>
        fst (getOrCachePlacePhotos w params) =
          resultFrom (getCuisineFallbackImageFromTypes (types params))
            (fst (detailsAndRefs w params))
            (collected w 0 (take 4 (snd (detailsAndRefs w params)))))"
  using fetchWithRetries_two[of w r evs] photoCalls_photoLoop[of w refs es evs]
    photoLoop_collected[of refs w es evs] collected_subseq[of w n refs]
    collected_always[of p refs w n] collected_never[of w r n refs]
    getOrCache_collected[of w params]
  by blast

text \<open>
  The amended claim at a place with the references \<open>a\<close>, \<open>flaky\<close>, \<open>bad\<close>, \<open>c\<close> and \<open>d\<close>,
  and a provider that never answers for \<open>bad\<close> and fails on the first request for
  \<open>flaky\<close>: the result has the cover \<open>a\<close> and the gallery \<open>flaky\<close>, \<open>c\<close>; the run requests
  \<open>flaky\<close> and \<open>bad\<close> twice each, 100 ms apart, and \<open>d\<close>, the fifth, never.
\<close>

theorem photo_retries_and_partial_gallery_witness:
  "optTruthy (apiKey flakyWorld) \<and> cacheMiss flakyWorld sushiPlace
   \<and> alwaysAnswered flakyWorld ''c'' \<and> neverAnswered flakyWorld ''bad''
   \<and> map photo_reference (take 4 (snd (detailsAndRefs flakyWorld sushiPlace)))
       = [''a'', ''flaky'', ''bad'', ''c'']
   \<and> ''c'' \<in> set (map entry_id
         (collected flakyWorld 0 (take 4 (snd (detailsAndRefs flakyWorld sushiPlace)))))
   \<and> ''bad'' \<notin> set (map entry_id
         (collected flakyWorld 0 (take 4 (snd (detailsAndRefs flakyWorld sushiPlace)))))
   \<and> fst (getOrCachePlacePhotos flakyWorld sushiPlace) =
     \<lparr>cover = ''data:a'', gallery = [''data:flaky'', ''data:c''], details = emptyDetails\<rparr>
   \<and> filter (\<lambda>e. isUpstreamCall e \<or> e = Delay 100) flakyEvents =
     [DetailsCall ''p1'', PhotoCall ''a'', PhotoCall ''flaky'', Delay 100, PhotoCall ''flaky'',
      PhotoCall ''bad'', Delay 100, PhotoCall ''bad'', PhotoCall ''c'']"
proof -
  have k: "optTruthy (apiKey flakyWorld)" by code_simp
  have m: "cacheMiss flakyWorld sushiPlace" by code_simp
  have aa: "alwaysAnswered flakyWorld ''c''"
    by (simp add: alwaysAnswered_def flakyWorld_def)
  have na: "neverAnswered flakyWorld ''bad''"
    by (simp add: neverAnswered_def flakyWorld_def)
  let ?refs = "take 4 (snd (detailsAndRefs flakyWorld sushiPlace))"
  have i: "map photo_reference ?refs = [''a'', ''flaky'', ''bad'', ''c'']"
    by code_simp
  have pc: "photoRef ''c'' \<in> set ?refs" by code_simp
  have rc: "photo_reference (photoRef ''c'') = ''c''" by (simp add: photoRef_def)
  have v: "resultFrom (getCuisineFallbackImageFromTypes (types sushiPlace))
             (fst (detailsAndRefs flakyWorld sushiPlace))
             (collected flakyWorld 0 ?refs)
           = \<lparr>cover = ''data:a'', gallery = [''data:flaky'', ''data:c''], details = emptyDetails\<rparr>"
    by code_simp
  note th = photo_retries_and_partial_gallery[of flakyWorld "''bad''" "[]" ?refs "[]" 0
      "photoRef ''c''" sushiPlace]
  have a: "fst (getOrCachePlacePhotos flakyWorld sushiPlace) =
     \<lparr>cover = ''data:a'', gallery = [''data:flaky'', ''data:c''], details = emptyDetails\<rparr>"
    using th k m v by simp
  have ic: "''c'' \<in> set (map entry_id (collected flakyWorld 0 ?refs))"
    using th pc aa rc by simp
  have nb: "''bad'' \<notin> set (map entry_id (collected flakyWorld 0 ?refs))"
    using th na by blast
  have c: "filter (\<lambda>e. isUpstreamCall e \<or> e = Delay 100) flakyEvents =
     [DetailsCall ''p1'', PhotoCall ''a'', PhotoCall ''flaky'', Delay 100, PhotoCall ''flaky'',
      PhotoCall ''bad'', Delay 100, PhotoCall ''bad'', PhotoCall ''c'']"
    by code_simp
  show ?thesis using k m aa na i ic nb a c by simp
qed

text \<open>
  The claim as stated fails at a place with one photo reference and a provider that
  fails on the first two photo requests of a run and answers from the third on. The
  function requests the photo twice, 100 ms apart, and drops it: the place gets the
  fallback image and an empty gallery. A second retry, the third request, is not made,
  and the provider would have answered it.
\<close>

theorem second_retry_not_made:
  "fst (getOrCachePlacePhotos thirdTimeWorld onePhotoPlace) =
     \<lparr>cover = ''https://images.unsplash.com/photo-1546069901-ba9599a7e63c?auto=format&fit=crop&w=900&q=80'',
      gallery = [], details = emptyDetails\<rparr>
   \<and> thirdTimeEvents =
       [DbSelectPlace ''p1'', DetailsCall ''p1'', PhotoCall ''x'', Delay 100, PhotoCall ''x'']
   \<and> photoCalls thirdTimeEvents = 2
   \<and> photoResponse thirdTimeWorld 0 ''x'' = None
   \<and> photoResponse thirdTimeWorld 1 ''x'' = None
   \<and> photoResponse thirdTimeWorld 2 ''x'' = Some ''data:x''"
proof -
  have a: "fst (getOrCachePlacePhotos thirdTimeWorld onePhotoPlace) =
     \<lparr>cover = ''https://images.unsplash.com/photo-1546069901-ba9599a7e63c?auto=format&fit=crop&w=900&q=80'',
      gallery = [], details = emptyDetails\<rparr>"
    by code_simp
  have b: "thirdTimeEvents =
       [DbSelectPlace ''p1'', DetailsCall ''p1'', PhotoCall ''x'', Delay 100, PhotoCall ''x'']"
    by code_simp
  have c: "photoCalls thirdTimeEvents = 2" unfolding b by (simp add: photoCalls_def)
  have d: "photoResponse thirdTimeWorld 0 ''x'' = None"
    "photoResponse thirdTimeWorld 1 ''x'' = None"
    "photoResponse thirdTimeWorld 2 ''x'' = Some ''data:x''"
    by (simp_all add: thirdTimeWorld_def flakyWorld_def)
  show ?thesis using a b c d by simp
qed

end
